theory Spec2Isabelle
  imports Complex_Main
begin

section \<open>Data model\<close>

text \<open>
  The records follow the Prisma entities as the services read and write them. Record ids
  are opaque and generated by the store; they are modelled as natural numbers drawn from a
  counter. JavaScript numbers and Prisma decimals are idealised as real numbers, and
  timestamps are milliseconds as a natural number. Besides the tables, the state carries
  the per-user time of the last analysis, which the scheduler keeps in process memory.
  Titles and message texts of notifications are left out.
\<close>

type_synonym ident = nat

datatype position_status = OPEN | PARTIALLY_CLOSED | CLOSED

datatype close_reason = TAKE_PROFIT | STOP_LOSS | MANUAL | SIGNAL

datatype trade_status = PENDING | PLACED | PARTIAL | FILLED | CANCELLED | FAILED

datatype trade_type = BUY | SELL

datatype signal_action = ACT_BUY | ACT_SELL | HOLD

datatype signal_status =
  SIG_PENDING | SIG_APPROVED | SIG_REJECTED | SIG_EXECUTED | SKIPPED | SIG_EXPIRED

datatype trading_mode = MODE_MANUAL | COPILOT | AUTONOMOUS

datatype error =
  PositionNotFound ident
  | SignalNotFound ident
  | ExternalError string

record position =
  p_id :: ident
  p_userId :: string
  p_pair :: string
  p_amount :: real
  p_entryPrice :: real
  p_cost :: real
  p_stopLoss :: "real option"
  p_takeProfit :: "real option"
  p_signalId :: "ident option"
  p_entryTradeId :: "string option"
  p_status :: position_status
  p_createdAt :: nat
  p_exitPrice :: "real option"
  p_exitAmount :: "real option"
  p_pnl :: "real option"
  p_pnlPercent :: "real option"
  p_closedAt :: "nat option"
  p_closeReason :: "close_reason option"
  p_exitTradeId :: "string option"

record trade =
  t_id :: ident
  t_userId :: string
  t_orderId :: "string option"
  t_pair :: string
  t_type :: trade_type
  t_price :: real
  t_amount :: real
  t_cost :: real
  t_stopLoss :: "real option"
  t_takeProfit :: "real option"
  t_status :: trade_status
  t_signalId :: "ident option"
  t_filledAt :: "nat option"

record signal =
  sg_id :: ident
  sg_userId :: string
  sg_pair :: string
  sg_action :: signal_action
  sg_confidence :: real
  sg_technicalScore :: real
  sg_sentimentScore :: real
  sg_riskScore :: real
  sg_entryPrice :: real
  sg_targetPrice :: real
  sg_stopLoss :: real
  sg_amountPercent :: real
  sg_reasoning :: string
  sg_newsContext :: "string option"
  sg_status :: signal_status
  sg_validUntil :: nat
  sg_createdAt :: nat

record user =
  u_id :: string
  u_indodaxApiKey :: "string option"
  u_indodaxSecretKey :: "string option"

record user_settings =
  st_userId :: string
  st_botActive :: bool
  st_analysisIntervalMins :: nat
  st_allowedPairs :: "string list"
  st_maxOpenPositions :: nat
  st_minConfidenceToTrade :: real
  st_tradingMode :: trading_mode

record notification =
  n_id :: ident
  n_userId :: string
  n_type :: string

record store =
  positions :: "position list"
  trades :: "trade list"
  signals :: "signal list"
  users :: "user list"
  userSettings :: "user_settings list"
  notifications :: "notification list"
  nextId :: ident
  lastAnalysisTime :: "(string \<times> nat) list"

text \<open>
  An asynchronous operation on the store either resolves to a value or rejects with an
  error; in both cases the writes it made before stay in the store.
\<close>

type_synonym 'a io = "store \<Rightarrow> (error + 'a) \<times> store"

definition ret :: "'a \<Rightarrow> 'a io" where
  "ret x s = (Inr x, s)"

definition throw :: "error \<Rightarrow> 'a io" where
  "throw e s = (Inl e, s)"

definition andThen :: "'a io \<Rightarrow> ('a \<Rightarrow> 'b io) \<Rightarrow> 'b io" where
  "andThen m f s = (case m s of (Inl e, s') \<Rightarrow> (Inl e, s') | (Inr x, s') \<Rightarrow> f x s')"

definition tryCatch :: "'a io \<Rightarrow> (error \<Rightarrow> 'a io) \<Rightarrow> 'a io" where
  "tryCatch m h s = (case m s of (Inl e, s') \<Rightarrow> h e s' | (Inr x, s') \<Rightarrow> (Inr x, s'))"

fun forEach :: "'b list \<Rightarrow> ('b \<Rightarrow> unit io) \<Rightarrow> unit io" where
  "forEach [] body s = (Inr (), s)"
| "forEach (x # xs) body s =
     (case body x s of (Inl e, s') \<Rightarrow> (Inl e, s') | (Inr u, s') \<Rightarrow> forEach xs body s')"

subsection \<open>JavaScript truthiness\<close>

text \<open>
  \<open>x || d\<close>, \<open>x && c\<close> and \<open>x ? a : b\<close> on an optional number treat \<open>undefined\<close>,
  \<open>null\<close> and \<open>0\<close> alike; on an optional string, \<open>undefined\<close>, \<open>null\<close> and the
  empty string.
\<close>

definition truthyNum :: "real option \<Rightarrow> bool" where
  "truthyNum v = (case v of None \<Rightarrow> False | Some x \<Rightarrow> x \<noteq> 0)"

definition truthyStr :: "string option \<Rightarrow> bool" where
  "truthyStr v = (case v of None \<Rightarrow> False | Some x \<Rightarrow> x \<noteq> [])"

definition orUndefined :: "real option \<Rightarrow> real option" where
  "orUndefined v = (if truthyNum v then v else None)"

section \<open>Position service\<close>

record OpenPositionParams =
  op_userId :: string
  op_pair :: string
  op_amount :: real
  op_entryPrice :: real
  op_cost :: real
  op_signalId :: "ident option"
  op_stopLoss :: "real option"
  op_takeProfit :: "real option"
  op_entryTradeId :: "string option"

record ClosePositionParams =
  cp_positionId :: ident
  cp_exitPrice :: real
  cp_exitAmount :: "real option"
  cp_reason :: close_reason
  cp_exitTradeId :: "string option"

text \<open>\<open>openPosition\<close>: one \<open>prisma.position.create\<close> with status OPEN.\<close>

definition createdPosition :: "nat \<Rightarrow> ident \<Rightarrow> OpenPositionParams \<Rightarrow> position" where
  "createdPosition now newId params =
     \<lparr> p_id = newId,
       p_userId = op_userId params,
       p_pair = op_pair params,
       p_amount = op_amount params,
       p_entryPrice = op_entryPrice params,
       p_cost = op_cost params,
       p_stopLoss = orUndefined (op_stopLoss params),
       p_takeProfit = orUndefined (op_takeProfit params),
       p_signalId = op_signalId params,
       p_entryTradeId = op_entryTradeId params,
       p_status = OPEN,
       p_createdAt = now,
       p_exitPrice = None,
       p_exitAmount = None,
       p_pnl = None,
       p_pnlPercent = None,
       p_closedAt = None,
       p_closeReason = None,
       p_exitTradeId = None \<rparr>"

definition openPosition :: "nat \<Rightarrow> OpenPositionParams \<Rightarrow> position io" where
  "openPosition now params s =
     (let position = createdPosition now (nextId s) params
      in (Inr position,
          s\<lparr>positions := positions s @ [position], nextId := Suc (nextId s)\<rparr>))"

text \<open>
  \<open>closePosition\<close>: \<open>findUnique\<close> by id, the profit and loss computation, then one
  \<open>prisma.position.update\<close> by id. A field passed as \<open>undefined\<close> is left as it is.
\<close>

definition closedRecord :: "nat \<Rightarrow> ClosePositionParams \<Rightarrow> position \<Rightarrow> position" where
  "closedRecord now params position =
     (let entryPriceNum = p_entryPrice position;
          exitPrice = cp_exitPrice params;
          exitAmount = cp_exitAmount params;
          amount = (if truthyNum exitAmount then (case exitAmount of Some x \<Rightarrow> x | None \<Rightarrow> 0)
                    else p_amount position);
          exitValue = amount * exitPrice;
          entryValue = amount * entryPriceNum;
          pnl = exitValue - entryValue;
          pnlPercent = ((exitPrice - entryPriceNum) / entryPriceNum) * 100
      in position\<lparr>
           p_status :=
             (if truthyNum exitAmount
                 \<and> (case exitAmount of Some x \<Rightarrow> x < p_amount position | None \<Rightarrow> False)
              then PARTIALLY_CLOSED else CLOSED),
           p_exitPrice := Some exitPrice,
           p_exitAmount := Some amount,
           p_pnl := Some pnl,
           p_pnlPercent := Some pnlPercent,
           p_closedAt := Some now,
           p_closeReason := Some (cp_reason params),
           p_exitTradeId :=
             (case cp_exitTradeId params of None \<Rightarrow> p_exitTradeId position | Some t \<Rightarrow> Some t)
         \<rparr>)"

definition closePosition :: "nat \<Rightarrow> ClosePositionParams \<Rightarrow> position io" where
  "closePosition now params s =
     (case find (\<lambda>p. p_id p = cp_positionId params) (positions s) of
        None \<Rightarrow> (Inl (PositionNotFound (cp_positionId params)), s)
      | Some position \<Rightarrow>
          (let updated = closedRecord now params position
           in (Inr updated,
               s\<lparr>positions :=
                    map (\<lambda>p. if p_id p = cp_positionId params then updated else p)
                      (positions s)\<rparr>)))"

text \<open>
  \<open>checkExitConditions\<close>: stop loss first, then take profit. A threshold is read with
  \<open>x ? Number(x) : null\<close> and tested again with \<open>stopLoss && ...\<close>, so a threshold
  of zero never triggers, whether it arrives as a number or as a decimal object.
\<close>

record exit_check =
  shouldClose :: bool
  reason :: "close_reason option"

definition checkExitConditions :: "position \<Rightarrow> real \<Rightarrow> exit_check" where
  "checkExitConditions position currentPrice =
     (let stopLoss = (if truthyNum (p_stopLoss position) then p_stopLoss position else None);
          takeProfit = (if truthyNum (p_takeProfit position) then p_takeProfit position else None)
      in if truthyNum stopLoss
            \<and> (case stopLoss of Some sl \<Rightarrow> currentPrice \<le> sl | None \<Rightarrow> False)
         then \<lparr>shouldClose = True, reason = Some STOP_LOSS\<rparr>
         else if truthyNum takeProfit
            \<and> (case takeProfit of Some tp \<Rightarrow> currentPrice \<ge> tp | None \<Rightarrow> False)
         then \<lparr>shouldClose = True, reason = Some TAKE_PROFIT\<rparr>
         else \<lparr>shouldClose = False, reason = None\<rparr>)"

text \<open>\<open>getOpenPositions\<close>, \<open>getBotPositionAmount\<close>, \<open>findPositionToClose\<close>.\<close>

definition getOpenPositions :: "string \<Rightarrow> string option \<Rightarrow> store \<Rightarrow> position list" where
  "getOpenPositions userId pair s =
     rev (sort_key p_createdAt
       (filter (\<lambda>p. p_userId p = userId \<and> p_status p = OPEN
                    \<and> (if truthyStr pair then Some (p_pair p) = pair else True))
          (positions s)))"

definition getBotPositionAmount :: "string \<Rightarrow> string \<Rightarrow> store \<Rightarrow> real" where
  "getBotPositionAmount userId pair s =
     foldl (\<lambda>total pos. total + p_amount pos) 0 (getOpenPositions userId (Some pair) s)"

definition findPositionToClose :: "string \<Rightarrow> string \<Rightarrow> store \<Rightarrow> position option" where
  "findPositionToClose userId pair s =
     (let ps = getOpenPositions userId (Some pair) s
      in if length ps = 0 then None else Some (ps ! (length ps - 1)))"

section \<open>External collaborators\<close>

text \<open>
  The exchange, the key decryption, the signal generator, the news fetcher and the random
  number generator are outside the program. Each is a function that gives the outcome of
  the call: a value, or the error the call throws. The exchange may answer two equal
  requests differently, so the outcome of an exchange call is looked up by the id of the
  record the call is made for. \<open>randomBelow u n\<close> stands for
  \<open>Math.floor(Math.random() * n)\<close>, a number below \<open>n\<close>.
\<close>

record trade_request =
  tr_pair :: string
  tr_type :: trade_type
  tr_price :: real
  tr_amount :: real

record gw_order =
  go_status :: "string option"
  go_remain_idr :: "string option"

record AIAnalysisResult =
  ai_action :: signal_action
  ai_confidence :: real
  ai_technicalScore :: real
  ai_sentimentScore :: real
  ai_riskScore :: real
  ai_entryPrice :: real
  ai_targetPrice :: real
  ai_stopLoss :: real
  ai_amountPercent :: real
  ai_reasoning :: string

record env =
  decrypt :: "string \<Rightarrow> error + string"
  getSummaries :: "error + (string \<times> real) list"
  api_trade :: "ident \<Rightarrow> trade_request \<Rightarrow> error + nat"
  api_getOrder :: "ident \<Rightarrow> string \<Rightarrow> string \<Rightarrow> error + gw_order"
  generateSignal :: "string \<Rightarrow> string \<Rightarrow> error + AIAnalysisResult option"
  fetchCryptoNews :: "string \<Rightarrow> error + string option"
  randomBelow :: "string \<Rightarrow> nat \<Rightarrow> nat"

definition await :: "error + 'a \<Rightarrow> 'a io" where
  "await r s = (r, s)"

definition hasApiKeys :: "user option \<Rightarrow> bool" where
  "hasApiKeys usr =
     (case usr of
        None \<Rightarrow> False
      | Some u \<Rightarrow> truthyStr (u_indodaxApiKey u) \<and> truthyStr (u_indodaxSecretKey u))"

text \<open>\<open>new IndodaxPrivateAPI(decrypt(apiKey), decrypt(secretKey))\<close>\<close>

definition newPrivateAPI :: "env \<Rightarrow> user option \<Rightarrow> (string \<times> string) io" where
  "newPrivateAPI e usr =
     (case usr of
        None \<Rightarrow> throw (ExternalError ''no user'')
      | Some u \<Rightarrow>
          andThen (await (decrypt e (case u_indodaxApiKey u of Some k \<Rightarrow> k | None \<Rightarrow> [])))
            (\<lambda>k1. andThen
               (await (decrypt e (case u_indodaxSecretKey u of Some k \<Rightarrow> k | None \<Rightarrow> [])))
               (\<lambda>k2. ret (k1, k2))))"

definition lower_char :: "char \<Rightarrow> char" where
  "lower_char c =
     (let n = (of_char c :: nat) in if 65 \<le> n \<and> n \<le> 90 then char_of (n + 32) else c)"

definition toLowerCase :: "string \<Rightarrow> string" where
  "toLowerCase str = map lower_char str"

section \<open>Scheduler service\<close>

text \<open>
  \<open>sendAndSaveNotification\<close>: saves the notification and swallows any failure.
\<close>

definition createNotification :: "string \<Rightarrow> string \<Rightarrow> unit io" where
  "createNotification userId type s =
     (Inr (),
      s\<lparr>notifications := notifications s @ [\<lparr>n_id = nextId s, n_userId = userId, n_type = type\<rparr>],
        nextId := Suc (nextId s)\<rparr>)"

definition sendAndSaveNotification :: "string \<Rightarrow> string \<Rightarrow> unit io" where
  "sendAndSaveNotification userId type =
     tryCatch (createNotification userId type) (\<lambda>err. ret ())"

subsection \<open>Position monitor\<close>

text \<open>The body of the inner \<open>try\<close> block, for one triggered position.\<close>

definition sellRequest :: "position \<Rightarrow> real \<Rightarrow> trade_request" where
  "sellRequest position currentPrice =
     \<lparr>tr_pair = p_pair position, tr_type = SELL, tr_price = currentPrice,
      tr_amount = of_int \<lfloor>p_amount position\<rfloor>\<rparr>"

definition exitParams :: "position \<Rightarrow> real \<Rightarrow> close_reason \<Rightarrow> ClosePositionParams" where
  "exitParams position currentPrice rsn =
     \<lparr>cp_positionId = p_id position, cp_exitPrice = currentPrice,
      cp_exitAmount = None, cp_reason = rsn, cp_exitTradeId = None\<rparr>"

definition executeExit ::
  "env \<Rightarrow> nat \<Rightarrow> position \<Rightarrow> user option \<Rightarrow> real \<Rightarrow> close_reason \<Rightarrow> unit io" where
  "executeExit e now position usr currentPrice rsn =
     (if \<not> hasApiKeys usr then ret ()
      else
        andThen (newPrivateAPI e usr) (\<lambda>api.
        andThen (await (api_trade e (p_id position) (sellRequest position currentPrice)))
          (\<lambda>tradeResult.
        andThen (closePosition now (exitParams position currentPrice rsn))
          (\<lambda>closedPosition.
        sendAndSaveNotification (p_userId position) ''TRADE''))))"

text \<open>
  One turn of the \<open>for\<close> loop over the open positions. The ticker snapshot maps a
  pair key to the last price, taken as the number \<open>parseFloat\<close> reads.
\<close>

definition monitorPosition ::
  "env \<Rightarrow> nat \<Rightarrow> (string \<times> real) list \<Rightarrow> position \<times> user option \<Rightarrow> unit io" where
  "monitorPosition e now tickers pu =
     (let position = fst pu; usr = snd pu; pairKey = toLowerCase (p_pair position)
      in case map_of tickers pairKey of
           None \<Rightarrow> ret ()
         | Some currentPrice \<Rightarrow>
             (let exitCheck = checkExitConditions position currentPrice
              in if shouldClose exitCheck
                 then (case reason exitCheck of
                         None \<Rightarrow> ret ()
                       | Some rsn \<Rightarrow>
                           tryCatch (executeExit e now position usr currentPrice rsn)
                             (\<lambda>tradeError. ret ()))
                 else ret ()))"

definition findOpenPositions :: "(position \<times> user option) list io" where
  "findOpenPositions s =
     (Inr (map (\<lambda>p. (p, find (\<lambda>u. u_id u = p_userId p) (users s)))
             (filter (\<lambda>p. p_status p = OPEN) (positions s))), s)"

definition checkPositionsForSLTP :: "env \<Rightarrow> nat \<Rightarrow> unit io" where
  "checkPositionsForSLTP e now =
     tryCatch
       (andThen (await (getSummaries e)) (\<lambda>tickers.
        andThen findOpenPositions (\<lambda>openPositions.
        forEach openPositions (monitorPosition e now tickers))))
       (\<lambda>err. ret ())"

subsection \<open>Order reconciler\<close>

text \<open>
  The status the reconciler reads off the exchange's reply: the reply's \<open>status\<close>, or,
  when the reply carries none, \<open>filled\<close> if \<open>remain_idr\<close> is the string \<open>0\<close> and
  \<open>open\<close> otherwise. Then the \<open>switch\<close>.
\<close>

definition orderStatus :: "gw_order \<Rightarrow> string" where
  "orderStatus ord =
     (if truthyStr (go_status ord) then (case go_status ord of Some st \<Rightarrow> st | None \<Rightarrow> [])
      else if go_remain_idr ord = Some ''0'' then ''filled'' else ''open'')"

definition newStatusOf :: "string \<Rightarrow> trade_status" where
  "newStatusOf st =
     (if st = ''filled'' then FILLED
      else if st = ''partial'' then PARTIAL
      else if st = ''cancelled'' then CANCELLED
      else PLACED)"

definition updateTradeStatus :: "ident \<Rightarrow> trade_status \<Rightarrow> nat \<Rightarrow> unit io" where
  "updateTradeStatus tid newStatus now s =
     (Inr (),
      s\<lparr>trades :=
          map (\<lambda>t. if t_id t = tid
                    then t\<lparr>t_status := newStatus,
                           t_filledAt := (if newStatus = FILLED then Some now else t_filledAt t)\<rparr>
                    else t)
            (trades s)\<rparr>)"

text \<open>\<open>prisma.signal.update\<close> by id rejects when no signal has the id.\<close>

definition updateSignalStatus :: "ident \<Rightarrow> signal_status \<Rightarrow> unit io" where
  "updateSignalStatus sid st s =
     (case find (\<lambda>g. sg_id g = sid) (signals s) of
        None \<Rightarrow> (Inl (SignalNotFound sid), s)
      | Some g0 \<Rightarrow>
          (Inr (),
           s\<lparr>signals := map (\<lambda>g. if sg_id g = sid then g\<lparr>sg_status := st\<rparr> else g) (signals s)\<rparr>))"

definition findPositionByEntryTrade :: "string \<Rightarrow> string option \<Rightarrow> position option io" where
  "findPositionByEntryTrade userId orderId s =
     (Inr (find (\<lambda>p. p_userId p = userId \<and> p_entryTradeId p = orderId) (positions s)), s)"

text \<open>What follows a changed status: the update, and for a filled BUY the position.\<close>

definition onStatusChange :: "nat \<Rightarrow> trade \<Rightarrow> trade_status \<Rightarrow> unit io" where
  "onStatusChange now trd newStatus =
     andThen (updateTradeStatus (t_id trd) newStatus now) (\<lambda>u.
       if newStatus = FILLED \<and> t_type trd = BUY
       then andThen (findPositionByEntryTrade (t_userId trd) (t_orderId trd))
              (\<lambda>existingPosition.
                 case existingPosition of
                   Some p \<Rightarrow> ret ()
                 | None \<Rightarrow>
                     andThen (openPosition now
                                \<lparr>op_userId = t_userId trd, op_pair = t_pair trd,
                                 op_amount = t_amount trd, op_entryPrice = t_price trd,
                                 op_cost = t_cost trd, op_signalId = t_signalId trd,
                                 op_stopLoss = t_stopLoss trd, op_takeProfit = t_takeProfit trd,
                                 op_entryTradeId = t_orderId trd\<rparr>) (\<lambda>position.
                     andThen (case t_signalId trd of
                                None \<Rightarrow> ret ()
                              | Some sid \<Rightarrow> updateSignalStatus sid SIG_EXECUTED) (\<lambda>u2.
                     sendAndSaveNotification (t_userId trd) ''TRADE'')))
       else ret ())"

text \<open>The body of the \<open>try\<close> block for one tracked order.\<close>

definition syncTrade :: "env \<Rightarrow> nat \<Rightarrow> trade \<times> user option \<Rightarrow> unit io" where
  "syncTrade e now tu =
     (let trd = fst tu; usr = snd tu
      in if \<not> hasApiKeys usr then ret ()
         else
           andThen (newPrivateAPI e usr) (\<lambda>api.
           andThen (await (api_getOrder e (t_id trd) (t_pair trd)
                      (case t_orderId trd of Some oid \<Rightarrow> oid | None \<Rightarrow> []))) (\<lambda>ord.
             (let newStatus = newStatusOf (orderStatus ord)
              in if newStatus \<noteq> t_status trd then onStatusChange now trd newStatus
                 else ret ()))))"

definition findPendingTrades :: "(trade \<times> user option) list io" where
  "findPendingTrades s =
     (Inr (map (\<lambda>t. (t, find (\<lambda>u. u_id u = t_userId t) (users s)))
             (filter (\<lambda>t. (t_status t = PLACED \<or> t_status t = PARTIAL) \<and> t_orderId t \<noteq> None)
                (trades s))), s)"

text \<open>One turn of the \<open>for\<close> loop over the pending orders: the \<open>try\<close> and its \<open>catch\<close>.\<close>

definition reconcileOne :: "env \<Rightarrow> nat \<Rightarrow> trade \<times> user option \<Rightarrow> unit io" where
  "reconcileOne e now tu = tryCatch (syncTrade e now tu) (\<lambda>tradeError. ret ())"

definition syncPendingOrders :: "env \<Rightarrow> nat \<Rightarrow> unit io" where
  "syncPendingOrders e now =
     tryCatch
       (andThen findPendingTrades (\<lambda>pendingTrades.
          if length pendingTrades = 0 then ret ()
          else forEach pendingTrades (reconcileOne e now)))
       (\<lambda>err. ret ())"

subsection \<open>Scheduled analysis\<close>

definition createSignal ::
  "nat \<Rightarrow> string \<Rightarrow> string \<Rightarrow> AIAnalysisResult \<Rightarrow> string option \<Rightarrow> signal_status \<Rightarrow> signal io" where
  "createSignal now userId pair r news st s =
     (let g = \<lparr>sg_id = nextId s, sg_userId = userId, sg_pair = pair,
               sg_action = ai_action r, sg_confidence = ai_confidence r,
               sg_technicalScore = ai_technicalScore r, sg_sentimentScore = ai_sentimentScore r,
               sg_riskScore = ai_riskScore r, sg_entryPrice = ai_entryPrice r,
               sg_targetPrice = ai_targetPrice r, sg_stopLoss = ai_stopLoss r,
               sg_amountPercent = ai_amountPercent r, sg_reasoning = ai_reasoning r,
               sg_newsContext = news, sg_status = st,
               sg_validUntil = now + 60 * 60 * 1000, sg_createdAt = now\<rparr>
      in (Inr g, s\<lparr>signals := signals s @ [g], nextId := Suc (nextId s)\<rparr>))"

definition setLastAnalysisTime :: "string \<Rightarrow> nat \<Rightarrow> unit io" where
  "setLastAnalysisTime userId now s =
     (Inr (), s\<lparr>lastAnalysisTime := (userId, now) # lastAnalysisTime s\<rparr>)"

definition countOpenPositions :: "string \<Rightarrow> nat io" where
  "countOpenPositions userId s =
     (Inr (length (filter (\<lambda>p. p_userId p = userId \<and> p_status p = OPEN) (positions s))), s)"

definition findOpenPositionFor :: "string \<Rightarrow> string \<Rightarrow> position option io" where
  "findOpenPositionFor userId pair s =
     (Inr (find (\<lambda>p. p_userId p = userId \<and> p_pair p = pair \<and> p_status p = OPEN) (positions s)), s)"

text \<open>The body of the \<open>try\<close> block for one active user and the pair picked for them.\<close>

definition analyseUser :: "env \<Rightarrow> nat \<Rightarrow> user_settings \<Rightarrow> string \<Rightarrow> unit io" where
  "analyseUser e now settings pair =
     andThen (countOpenPositions (st_userId settings)) (\<lambda>openPositionsCount.
       if openPositionsCount \<ge> st_maxOpenPositions settings then ret ()
       else
         andThen (findOpenPositionFor (st_userId settings) pair) (\<lambda>existingPosition.
           case existingPosition of
             Some p \<Rightarrow> ret ()
           | None \<Rightarrow>
               andThen (await (generateSignal e (st_userId settings) pair)) (\<lambda>sig.
                 case sig of
                   None \<Rightarrow> setLastAnalysisTime (st_userId settings) now
                 | Some r \<Rightarrow>
                     if ai_action r = HOLD then setLastAnalysisTime (st_userId settings) now
                     else if ai_confidence r < st_minConfidenceToTrade settings
                     then setLastAnalysisTime (st_userId settings) now
                     else
                       andThen (createSignal now (st_userId settings) pair r None SIG_PENDING)
                         (\<lambda>savedSignal. setLastAnalysisTime (st_userId settings) now))))"

definition scheduledUser :: "env \<Rightarrow> nat \<Rightarrow> user_settings \<Rightarrow> unit io" where
  "scheduledUser e now settings s =
     (let lastRun = (case map_of (lastAnalysisTime s) (st_userId settings) of
                       Some t \<Rightarrow> t | None \<Rightarrow> 0);
          minInterval = (if st_analysisIntervalMins settings = 0 then 30
                         else st_analysisIntervalMins settings) * 60 * 1000
      in if int now - int lastRun < int minInterval then (Inr (), s)
         else
           (let pairs = (if length (st_allowedPairs settings) > 0 then st_allowedPairs settings
                         else [''btc_idr'', ''eth_idr'']);
                pair = pairs ! (randomBelow e (st_userId settings) (length pairs))
            in tryCatch (analyseUser e now settings pair) (\<lambda>analysisError. ret ()) s))"

definition runScheduledAnalysis :: "env \<Rightarrow> nat \<Rightarrow> unit io" where
  "runScheduledAnalysis e now =
     tryCatch
       (\<lambda>s. (let activeUsers = filter st_botActive (userSettings s)
             in if length activeUsers = 0 then (Inr (), s)
                else forEach activeUsers (scheduledUser e now) s))
       (\<lambda>err. ret ())"

subsection \<open>Starting and stopping the jobs\<close>

text \<open>
  The module's variables. A timer handle records what \<open>setInterval\<close> was given: the job
  and the period in milliseconds. \<open>started\<close> lists the jobs \<open>startScheduler\<close> called
  directly, in order.
\<close>

datatype job = PositionMonitorJob | OrderSyncJob | AnalysisJob

record scheduler =
  isRunning :: bool
  positionMonitorInterval :: "(job \<times> nat) option"
  orderSyncInterval :: "(job \<times> nat) option"
  analysisInterval :: "(job \<times> nat) option"
  started :: "job list"

definition setInterval :: "job \<Rightarrow> nat \<Rightarrow> (job \<times> nat) option" where
  "setInterval j ms = Some (j, ms)"

definition startScheduler :: "scheduler \<Rightarrow> scheduler" where
  "startScheduler sch =
     (if isRunning sch then sch
      else
        (let sch1 = sch\<lparr>isRunning := True\<rparr>;
             sch2 = sch1\<lparr>started := started sch1 @ [PositionMonitorJob]\<rparr>;
             sch3 = sch2\<lparr>positionMonitorInterval := setInterval PositionMonitorJob (60 * 1000)\<rparr>;
             sch4 = sch3\<lparr>started := started sch3 @ [OrderSyncJob]\<rparr>;
             sch5 = sch4\<lparr>orderSyncInterval := setInterval OrderSyncJob (60 * 1000)\<rparr>;
             sch6 = sch5\<lparr>analysisInterval := setInterval AnalysisJob (5 * 60 * 1000)\<rparr>
         in sch6))"

definition stopScheduler :: "scheduler \<Rightarrow> scheduler" where
  "stopScheduler sch =
     sch\<lparr>positionMonitorInterval := None, orderSyncInterval := None,
         analysisInterval := None, isRunning := False\<rparr>"

definition isSchedulerRunning :: "scheduler \<Rightarrow> bool" where
  "isSchedulerRunning sch = isRunning sch"

section \<open>Queue worker for analysis jobs\<close>

text \<open>
  \<open>analysisWorker\<close> processes one analysis job. Adding a job to the notification queue
  and the socket notification write nothing to the store and are left out.
\<close>

definition autonomousSell :: "nat \<Rightarrow> string \<Rightarrow> string \<Rightarrow> AIAnalysisResult \<Rightarrow> signal \<Rightarrow> unit io" where
  "autonomousSell now userId pair r savedSignal s =
     (let botAmount = getBotPositionAmount userId pair s
      in if botAmount = 0 then updateSignalStatus (sg_id savedSignal) SKIPPED s
         else (case findPositionToClose userId pair s of
                 None \<Rightarrow> (Inr (), s)
               | Some positionToClose \<Rightarrow>
                   andThen (closePosition now
                              \<lparr>cp_positionId = p_id positionToClose,
                               cp_exitPrice = ai_entryPrice r, cp_exitAmount = None,
                               cp_reason = SIGNAL, cp_exitTradeId = None\<rparr>)
                     (\<lambda>closedPosition. updateSignalStatus (sg_id savedSignal) SIG_EXECUTED) s))"

definition autonomousBuy :: "nat \<Rightarrow> string \<Rightarrow> string \<Rightarrow> AIAnalysisResult \<Rightarrow> signal \<Rightarrow> unit io" where
  "autonomousBuy now userId pair r savedSignal =
     (let estimatedBalance = 10000000;
          cost = (estimatedBalance * ai_amountPercent r) / 100;
          amount = cost / ai_entryPrice r
      in andThen (openPosition now
                    \<lparr>op_userId = userId, op_pair = pair, op_amount = amount,
                     op_entryPrice = ai_entryPrice r, op_cost = cost,
                     op_signalId = Some (sg_id savedSignal),
                     op_stopLoss = Some (ai_stopLoss r), op_takeProfit = Some (ai_targetPrice r),
                     op_entryTradeId = None\<rparr>)
           (\<lambda>position. updateSignalStatus (sg_id savedSignal) SIG_EXECUTED))"

definition analysisJob :: "env \<Rightarrow> nat \<Rightarrow> string \<Rightarrow> string \<Rightarrow> unit io" where
  "analysisJob e now userId pair s =
     (case find (\<lambda>st. st_userId st = userId) (userSettings s) of
        None \<Rightarrow> (Inr (), s)
      | Some settings \<Rightarrow>
          if \<not> st_botActive settings then (Inr (), s)
          else
            andThen (findOpenPositionFor userId pair) (\<lambda>existingPosition.
              case existingPosition of
                Some p \<Rightarrow> ret ()
              | None \<Rightarrow>
                  andThen (countOpenPositions userId) (\<lambda>openPositionsCount.
                    if openPositionsCount \<ge> st_maxOpenPositions settings then ret ()
                    else
                      andThen (await (fetchCryptoNews e pair)) (\<lambda>newsContext.
                      andThen (await (generateSignal e userId pair)) (\<lambda>sig.
                        case sig of
                          None \<Rightarrow> ret ()
                        | Some r \<Rightarrow>
                            if ai_action r = HOLD then ret ()
                            else if ai_confidence r < st_minConfidenceToTrade settings
                            then andThen (createSignal now userId pair r newsContext SKIPPED)
                                   (\<lambda>g. ret ())
                            else
                              (let signalStatus =
                                     (if st_tradingMode settings = AUTONOMOUS
                                      then SIG_APPROVED else SIG_PENDING)
                               in andThen
                                    (createSignal now userId pair r newsContext signalStatus)
                                    (\<lambda>savedSignal.
                                       if st_tradingMode settings = AUTONOMOUS
                                          \<and> ai_action r \<noteq> HOLD
                                       then (if ai_action r = ACT_SELL
                                             then autonomousSell now userId pair r savedSignal
                                             else if ai_action r = ACT_BUY
                                             then autonomousBuy now userId pair r savedSignal
                                             else ret ())
                                       else ret ())))))) s)"

definition analysisWorker :: "env \<Rightarrow> nat \<Rightarrow> string \<Rightarrow> string \<Rightarrow> unit io" where
  "analysisWorker e now userId pair =
     (if userId = [] \<or> pair = [] then ret ()
      else tryCatch (analysisJob e now userId pair) (\<lambda>err. throw err))"

section \<open>Routes that obtain a generated signal\<close>

text \<open>
  Each handler resolves to the HTTP status it answers with.
  \<open>signalsGenerate\<close> is \<open>POST /api/signals/generate\<close>; \<open>jobsAnalyze\<close> is
  \<open>POST /api/jobs/analyze\<close>.
\<close>

definition signalsGenerate :: "env \<Rightarrow> nat \<Rightarrow> string \<Rightarrow> string \<Rightarrow> string option \<Rightarrow> nat io" where
  "signalsGenerate e now userId pair providedNewsContext =
     tryCatch
       (\<lambda>s. case find (\<lambda>st. st_userId st = userId) (userSettings s) of
          None \<Rightarrow> (Inr 400, s)
        | Some settings \<Rightarrow>
            if length (st_allowedPairs settings) > 0 \<and> pair \<notin> set (st_allowedPairs settings)
            then (Inr 400, s)
            else
              andThen (findOpenPositionFor userId pair) (\<lambda>existingPosition.
                case existingPosition of
                  Some p \<Rightarrow> ret 200
                | None \<Rightarrow>
                    andThen (countOpenPositions userId) (\<lambda>openPositionsCount.
                      if openPositionsCount \<ge> st_maxOpenPositions settings then ret 200
                      else
                        andThen (if truthyStr providedNewsContext then ret providedNewsContext
                                 else await (fetchCryptoNews e pair)) (\<lambda>newsContext.
                        andThen (await (generateSignal e userId pair)) (\<lambda>result.
                          case result of
                            None \<Rightarrow> ret 500
                          | Some r \<Rightarrow>
                              if ai_action r = HOLD then ret 200
                              else if ai_confidence r < st_minConfidenceToTrade settings
                              then andThen
                                     (createSignal now userId pair r
                                        (if truthyStr newsContext then newsContext else None)
                                        SKIPPED)
                                     (\<lambda>g. ret 200)
                              else andThen
                                     (createSignal now userId pair r
                                        (if truthyStr newsContext then newsContext else None)
                                        SIG_PENDING)
                                     (\<lambda>g. ret 201))))) s)
       (\<lambda>err. ret 500)"

definition jobsAnalyze :: "env \<Rightarrow> nat \<Rightarrow> string \<Rightarrow> string option \<Rightarrow> nat io" where
  "jobsAnalyze e now userId pair =
     tryCatch
       (\<lambda>s. case find (\<lambda>st. st_userId st = userId) (userSettings s) of
          None \<Rightarrow> (Inr 400, s)
        | Some settings \<Rightarrow>
            (let targetPair =
                   (if truthyStr pair then (case pair of Some p \<Rightarrow> p | None \<Rightarrow> [])
                    else if length (st_allowedPairs settings) > 0
                    then st_allowedPairs settings ! 0 else ''btc_idr'')
             in andThen (await (generateSignal e userId targetPair)) (\<lambda>sig.
                  case sig of
                    None \<Rightarrow> ret 200
                  | Some r \<Rightarrow>
                      andThen (createSignal now userId targetPair r None SIG_PENDING)
                        (\<lambda>savedSignal. ret 200)) s))
       (\<lambda>err. ret 500)"

section \<open>Concrete inputs and notions used in the statements\<close>

definition demo_position :: position where
  "demo_position = \<lparr> p_id = 1, p_userId = ''u1'', p_pair = ''btc_idr'', p_amount = 2,
     p_entryPrice = 100, p_cost = 200, p_stopLoss = None, p_takeProfit = None,
     p_signalId = None, p_entryTradeId = None, p_status = OPEN, p_createdAt = 10,
     p_exitPrice = None, p_exitAmount = None, p_pnl = None, p_pnlPercent = None,
     p_closedAt = None, p_closeReason = None, p_exitTradeId = None \<rparr>"

definition demo_closed :: position where
  "demo_closed = demo_position \<lparr> p_status := CLOSED,
     p_exitPrice := Some 110, p_exitAmount := Some 2, p_pnl := Some 20, p_pnlPercent := Some 10,
     p_closedAt := Some 50, p_closeReason := Some TAKE_PROFIT \<rparr>"

definition demo_reclosed :: position where
  "demo_reclosed = demo_position \<lparr> p_status := CLOSED,
     p_exitPrice := Some 90, p_exitAmount := Some 2, p_pnl := Some (- 20),
     p_pnlPercent := Some (- 10), p_closedAt := Some 60, p_closeReason := Some STOP_LOSS \<rparr>"

definition empty_store :: store where
  "empty_store = \<lparr> positions = [], trades = [], signals = [], users = [],
     userSettings = [], notifications = [], nextId = 2, lastAnalysisTime = [] \<rparr>"

definition demo_reclose :: ClosePositionParams where
  "demo_reclose = \<lparr> cp_positionId = 1, cp_exitPrice = 90, cp_exitAmount = None,
     cp_reason = STOP_LOSS, cp_exitTradeId = None \<rparr>"

definition demo_take_profit :: ClosePositionParams where
  "demo_take_profit = \<lparr> cp_positionId = 1, cp_exitPrice = 110, cp_exitAmount = None,
     cp_reason = TAKE_PROFIT, cp_exitTradeId = None \<rparr>"

text \<open>The exit amount as the specification words it: \<open>exitAmount ?? fullAmount\<close>.\<close>

definition spec_exitAmount :: "real option \<Rightarrow> real \<Rightarrow> real" where
  "spec_exitAmount x a = (case x of None \<Rightarrow> a | Some v \<Rightarrow> v)"

definition demo_zero_exit :: ClosePositionParams where
  "demo_zero_exit = \<lparr> cp_positionId = 1, cp_exitPrice = 110, cp_exitAmount = Some 0,
     cp_reason = MANUAL, cp_exitTradeId = None \<rparr>"

definition demo_open_params :: OpenPositionParams where
  "demo_open_params = \<lparr> op_userId = ''u1'', op_pair = ''btc_idr'', op_amount = 2,
     op_entryPrice = 100, op_cost = 200, op_signalId = None, op_stopLoss = Some 100,
     op_takeProfit = Some 50, op_entryTradeId = None \<rparr>"

definition demo_opened :: position where
  "demo_opened = demo_position \<lparr> p_id := 2, p_stopLoss := Some 100, p_takeProfit := Some 50 \<rparr>"

definition stopped_scheduler :: scheduler where
  "stopped_scheduler = \<lparr> isRunning = False, positionMonitorInterval = None,
     orderSyncInterval = None, analysisInterval = None, started = [] \<rparr>"

definition demo_settings :: user_settings where
  "demo_settings = \<lparr> st_userId = ''u1'', st_botActive = True, st_analysisIntervalMins = 30,
     st_allowedPairs = [''btc_idr''], st_maxOpenPositions = 3,
     st_minConfidenceToTrade = 7 / 10, st_tradingMode = AUTONOMOUS \<rparr>"

definition demo_user :: user where
  "demo_user = \<lparr> u_id = ''u1'', u_indodaxApiKey = Some ''key'', u_indodaxSecretKey = Some ''secret'' \<rparr>"

definition user_store :: store where
  "user_store = empty_store \<lparr> users := [demo_user], userSettings := [demo_settings] \<rparr>"

definition demo_analysis :: "signal_action \<Rightarrow> real \<Rightarrow> AIAnalysisResult" where
  "demo_analysis act conf = \<lparr> ai_action = act, ai_confidence = conf, ai_technicalScore = 0,
     ai_sentimentScore = 0, ai_riskScore = 1 / 2, ai_entryPrice = 100, ai_targetPrice = 120,
     ai_stopLoss = 90, ai_amountPercent = 10, ai_reasoning = ''r'' \<rparr>"

definition demo_env :: "AIAnalysisResult \<Rightarrow> env" where
  "demo_env r = \<lparr> decrypt = (\<lambda>k. Inr k), getSummaries = Inr [],
     api_trade = (\<lambda>i req. Inr 7),
     api_getOrder = (\<lambda>i pair oid. Inr \<lparr>go_status = Some ''open'', go_remain_idr = None\<rparr>),
     generateSignal = (\<lambda>u pair. Inr (Some r)),
     fetchCryptoNews = (\<lambda>pair. Inr None),
     randomBelow = (\<lambda>u n. 0) \<rparr>"

definition demo_signal :: "signal_action \<Rightarrow> real \<Rightarrow> signal_status \<Rightarrow> signal" where
  "demo_signal act conf st = \<lparr> sg_id = 2, sg_userId = ''u1'', sg_pair = ''btc_idr'',
     sg_action = act, sg_confidence = conf, sg_technicalScore = 0, sg_sentimentScore = 0,
     sg_riskScore = 1 / 2, sg_entryPrice = 100, sg_targetPrice = 120, sg_stopLoss = 90,
     sg_amountPercent = 10, sg_reasoning = ''r'', sg_newsContext = None, sg_status = st,
     sg_validUntil = 3601000, sg_createdAt = 1000 \<rparr>"

definition phantom_position :: position where
  "phantom_position = \<lparr> p_id = 3, p_userId = ''u1'', p_pair = ''btc_idr'', p_amount = 10000,
     p_entryPrice = 100, p_cost = 1000000, p_stopLoss = Some 90, p_takeProfit = Some 120,
     p_signalId = Some 2, p_entryTradeId = None, p_status = OPEN, p_createdAt = 1000,
     p_exitPrice = None, p_exitAmount = None, p_pnl = None, p_pnlPercent = None,
     p_closedAt = None, p_closeReason = None, p_exitTradeId = None \<rparr>"

definition demo_trade :: trade where
  "demo_trade = \<lparr> t_id = 5, t_userId = ''u1'', t_orderId = Some ''77'', t_pair = ''btc_idr'',
     t_type = BUY, t_price = 100, t_amount = 2, t_cost = 200, t_stopLoss = Some 90,
     t_takeProfit = Some 120, t_status = PLACED, t_signalId = None, t_filledAt = None \<rparr>"

definition gw_reply :: "string \<Rightarrow> gw_order" where
  "gw_reply st = \<lparr> go_status = Some st, go_remain_idr = None \<rparr>"

definition order_env :: "gw_order \<Rightarrow> env" where
  "order_env ord = \<lparr> decrypt = (\<lambda>k. Inr k), getSummaries = Inr [],
     api_trade = (\<lambda>i req. Inr 7),
     api_getOrder = (\<lambda>i pair oid. Inr ord),
     generateSignal = (\<lambda>u pair. Inr None),
     fetchCryptoNews = (\<lambda>pair. Inr None),
     randomBelow = (\<lambda>u n. 0) \<rparr>"

definition trade_store :: store where
  "trade_store = user_store \<lparr> trades := [demo_trade], nextId := 6 \<rparr>"

text \<open>
  For the positions that carry an entry order id: the pairs of owner and entry order id,
  and the entry order ids alone.
\<close>

definition linkedPairs :: "store \<Rightarrow> (string \<times> string option) list" where
  "linkedPairs s =
     map (\<lambda>p. (p_userId p, p_entryTradeId p))
       (filter (\<lambda>p. p_entryTradeId p \<noteq> None) (positions s))"

definition linkedOrders :: "store \<Rightarrow> string option list" where
  "linkedOrders s =
     map p_entryTradeId (filter (\<lambda>p. p_entryTradeId p \<noteq> None) (positions s))"

definition entryParams :: "trade \<Rightarrow> OpenPositionParams" where
  "entryParams trd =
     \<lparr>op_userId = t_userId trd, op_pair = t_pair trd, op_amount = t_amount trd,
      op_entryPrice = t_price trd, op_cost = t_cost trd, op_signalId = t_signalId trd,
      op_stopLoss = t_stopLoss trd, op_takeProfit = t_takeProfit trd,
      op_entryTradeId = t_orderId trd\<rparr>"

definition demo_user2 :: user where
  "demo_user2 = \<lparr> u_id = ''u2'', u_indodaxApiKey = Some ''key2'', u_indodaxSecretKey = Some ''secret2'' \<rparr>"

definition demo_trade2 :: trade where
  "demo_trade2 = demo_trade \<lparr> t_id := 6, t_userId := ''u2'', t_pair := ''eth_idr'' \<rparr>"

definition two_owner_store :: store where
  "two_owner_store = empty_store \<lparr> users := [demo_user, demo_user2],
     trades := [demo_trade, demo_trade2], nextId := 7 \<rparr>"

definition monitored :: "ident \<Rightarrow> position" where
  "monitored i = demo_position \<lparr> p_id := i, p_stopLoss := Some 90, p_takeProfit := Some 150 \<rparr>"

definition monitor_store :: store where
  "monitor_store = empty_store \<lparr> positions := [monitored 1, monitored 2, monitored 3],
     users := [demo_user], nextId := 4 \<rparr>"

definition monitor_env :: env where
  "monitor_env = \<lparr> decrypt = (\<lambda>k. Inr k), getSummaries = Inr [(''btc_idr'', 80)],
     api_trade = (\<lambda>i req. if i = 2 then Inl (ExternalError ''timeout'') else Inr 7),
     api_getOrder = (\<lambda>i pair oid. Inl (ExternalError ''unused'')),
     generateSignal = (\<lambda>u pair. Inr None),
     fetchCryptoNews = (\<lambda>pair. Inr None),
     randomBelow = (\<lambda>u n. 0) \<rparr>"



subsection \<open>One pass of the reconciler, await by await\<close>

text \<open>
  Every \<open>await\<close> of \<open>syncPendingOrders\<close> hands control back to the event loop, so
  another run of the function can take its own steps in between. A pass over the pending
  order with a given id is cut at its awaits: reading the pending orders, polling the
  exchange, updating the order, looking for an existing position, creating the position,
  marking the signal, notifying. A thrown error ends the pass for this order, as the
  \<open>catch\<close> does. \<open>interleave\<close> runs two passes by a schedule that says which of the
  two takes the next step.
\<close>

datatype pass_pc =
  AtFind
  | AtPoll "trade \<times> user option"
  | AtUpdate "trade \<times> user option" trade_status
  | AtLookup "trade \<times> user option"
  | AtCreate "trade \<times> user option"
  | AtMarkSignal "trade \<times> user option"
  | AtNotify "trade \<times> user option"
  | AtEnd

fun stepPass :: "env \<Rightarrow> nat \<Rightarrow> ident \<Rightarrow> pass_pc \<times> store \<Rightarrow> pass_pc \<times> store" where
  "stepPass e now tid (AtFind, s) =
     (case findPendingTrades s of
        (Inl err, s') \<Rightarrow> (AtEnd, s')
      | (Inr pendingTrades, s') \<Rightarrow>
          (case find (\<lambda>tu. t_id (fst tu) = tid) pendingTrades of
             None \<Rightarrow> (AtEnd, s')
           | Some tu \<Rightarrow> (AtPoll tu, s')))"
| "stepPass e now tid (AtPoll tu, s) =
     (if \<not> hasApiKeys (snd tu) then (AtEnd, s)
      else
        (case andThen (newPrivateAPI e (snd tu)) (\<lambda>api.
                await (api_getOrder e (t_id (fst tu)) (t_pair (fst tu))
                  (case t_orderId (fst tu) of Some oid \<Rightarrow> oid | None \<Rightarrow> []))) s of
           (Inl err, s') \<Rightarrow> (AtEnd, s')
         | (Inr ord, s') \<Rightarrow>
             (let newStatus = newStatusOf (orderStatus ord)
              in if newStatus \<noteq> t_status (fst tu) then (AtUpdate tu newStatus, s')
                 else (AtEnd, s'))))"
| "stepPass e now tid (AtUpdate tu newStatus, s) =
     (case updateTradeStatus (t_id (fst tu)) newStatus now s of
        (Inl err, s') \<Rightarrow> (AtEnd, s')
      | (Inr u, s') \<Rightarrow>
          (if newStatus = FILLED \<and> t_type (fst tu) = BUY then (AtLookup tu, s')
           else (AtEnd, s')))"
| "stepPass e now tid (AtLookup tu, s) =
     (case findPositionByEntryTrade (t_userId (fst tu)) (t_orderId (fst tu)) s of
        (Inl err, s') \<Rightarrow> (AtEnd, s')
      | (Inr existingPosition, s') \<Rightarrow>
          (case existingPosition of
             Some p \<Rightarrow> (AtEnd, s')
           | None \<Rightarrow> (AtCreate tu, s')))"
| "stepPass e now tid (AtCreate tu, s) =
     (case openPosition now (entryParams (fst tu)) s of
        (Inl err, s') \<Rightarrow> (AtEnd, s')
      | (Inr position, s') \<Rightarrow> (AtMarkSignal tu, s'))"
| "stepPass e now tid (AtMarkSignal tu, s) =
     (case t_signalId (fst tu) of
        None \<Rightarrow> (AtNotify tu, s)
      | Some sid \<Rightarrow>
          (case updateSignalStatus sid SIG_EXECUTED s of
             (Inl err, s') \<Rightarrow> (AtEnd, s')
           | (Inr u, s') \<Rightarrow> (AtNotify tu, s')))"
| "stepPass e now tid (AtNotify tu, s) =
     (case sendAndSaveNotification (t_userId (fst tu)) ''TRADE'' s of
        (r, s') \<Rightarrow> (AtEnd, s'))"
| "stepPass e now tid (AtEnd, s) = (AtEnd, s)"

fun interleave ::
  "env \<Rightarrow> nat \<Rightarrow> nat \<Rightarrow> ident \<Rightarrow> bool list \<Rightarrow> (pass_pc \<times> pass_pc) \<times> store
     \<Rightarrow> (pass_pc \<times> pass_pc) \<times> store" where
  "interleave e nowA nowB tid [] c = c"
| "interleave e nowA nowB tid (first # sched) c =
     (if first
      then (case stepPass e nowA tid (fst (fst c), snd c) of
              (pa, s') \<Rightarrow> interleave e nowA nowB tid sched ((pa, snd (fst c)), s'))
      else (case stepPass e nowB tid (snd (fst c), snd c) of
              (pb, s') \<Rightarrow> interleave e nowA nowB tid sched ((fst (fst c), pb), s')))"

definition overlapping :: "bool list" where
  "overlapping = [True, False, True, False, True, False, True, False, True, False,
                  True, False, True, False]"

definition oneAfterTheOther :: "bool list" where
  "oneAfterTheOther = [True, True, True, True, True, True, True,
                       False, False, False, False, False, False, False]"

section \<open>Properties\<close>

subsection \<open>Closing a position\<close>

lemma closePosition_found:
  assumes "find (\<lambda>p. p_id p = cp_positionId params) (positions s) = Some pos"
  shows "closePosition now params s =
       (Inr (closedRecord now params pos),
        s\<lparr>positions := map (\<lambda>p. if p_id p = cp_positionId params
                                 then closedRecord now params pos else p) (positions s)\<rparr>)"
  using assms by (simp add: closePosition_def Let_def)

lemma closePosition_not_found:
  assumes "find (\<lambda>p. p_id p = cp_positionId params) (positions s) = None"
  shows "closePosition now params s = (Inl (PositionNotFound (cp_positionId params)), s)"
  using assms by (simp add: closePosition_def)

text \<open>
  Claim C1 as stated fails: closing a position that is already CLOSED is not rejected. On
  a store holding one CLOSED position (exit price 110, pnl 20, reason TAKE_PROFIT, closed
  at 50), a second close at price 90 with reason STOP_LOSS resolves to the updated record,
  and the exit price, pnl, close reason and closed timestamp in the store are replaced.
\<close>

theorem closePosition_reclose_counterexample:
  "p_status demo_closed = CLOSED
   \<and> closePosition 60 demo_reclose (empty_store\<lparr>positions := [demo_closed]\<rparr>)
       = (Inr demo_reclosed, empty_store\<lparr>positions := [demo_reclosed]\<rparr>)
   \<and> p_exitPrice demo_closed = Some 110 \<and> p_exitPrice demo_reclosed = Some 90
   \<and> p_pnl demo_closed = Some 20 \<and> p_pnl demo_reclosed = Some (- 20)
   \<and> p_closeReason demo_closed = Some TAKE_PROFIT
   \<and> p_closeReason demo_reclosed = Some STOP_LOSS
   \<and> p_closedAt demo_closed = Some 50 \<and> p_closedAt demo_reclosed = Some 60"
  by (simp add: closePosition_def closedRecord_def demo_closed_def demo_reclosed_def
      demo_position_def demo_reclose_def empty_store_def truthyNum_def Let_def)

text \<open>
  Claim C1, amended. \<open>closePosition\<close> does not look at the status. Whenever the position id
  is found, also when that position is already CLOSED, the call resolves to the updated
  record and writes it to the store: exit price, exit amount, pnl, closed timestamp and
  close reason are those of the new call. (The only rejection is for an unknown id, see
  \<open>closePosition_not_found\<close>.)
\<close>

theorem closePosition_already_closed:
  assumes "find (\<lambda>p. p_id p = cp_positionId params) (positions s) = Some pos"
      and "p_status pos = CLOSED"
  shows "closePosition now params s =
           (Inr (closedRecord now params pos),
            s\<lparr>positions := map (\<lambda>p. if p_id p = cp_positionId params
                                     then closedRecord now params pos else p) (positions s)\<rparr>)
       \<and> p_exitPrice (closedRecord now params pos) = Some (cp_exitPrice params)
       \<and> p_exitAmount (closedRecord now params pos) =
           Some (case cp_exitAmount params of
                   None \<Rightarrow> p_amount pos
                 | Some x \<Rightarrow> if x = 0 then p_amount pos else x)
       \<and> p_pnl (closedRecord now params pos) =
           Some ((case cp_exitAmount params of
                    None \<Rightarrow> p_amount pos
                  | Some x \<Rightarrow> if x = 0 then p_amount pos else x)
                 * (cp_exitPrice params - p_entryPrice pos))
       \<and> p_closedAt (closedRecord now params pos) = Some now
       \<and> p_closeReason (closedRecord now params pos) = Some (cp_reason params)"
proof -
  have "closePosition now params s =
           (Inr (closedRecord now params pos),
            s\<lparr>positions := map (\<lambda>p. if p_id p = cp_positionId params
                                     then closedRecord now params pos else p) (positions s)\<rparr>)"
    using assms(1) by (rule closePosition_found)
  moreover have "p_exitPrice (closedRecord now params pos) = Some (cp_exitPrice params)"
    and "p_closedAt (closedRecord now params pos) = Some now"
    and "p_closeReason (closedRecord now params pos) = Some (cp_reason params)"
    by (simp_all add: closedRecord_def Let_def)
  moreover have "p_exitAmount (closedRecord now params pos) =
           Some (case cp_exitAmount params of
                   None \<Rightarrow> p_amount pos
                 | Some x \<Rightarrow> if x = 0 then p_amount pos else x)"
    by (simp add: closedRecord_def Let_def truthyNum_def split: option.splits)
  moreover have "p_pnl (closedRecord now params pos) =
           Some ((case cp_exitAmount params of
                    None \<Rightarrow> p_amount pos
                  | Some x \<Rightarrow> if x = 0 then p_amount pos else x)
                 * (cp_exitPrice params - p_entryPrice pos))"
    by (simp add: closedRecord_def Let_def truthyNum_def algebra_simps split: option.splits)
  ultimately show ?thesis by simp
qed

theorem closePosition_already_closed_witness:
  "find (\<lambda>p. p_id p = cp_positionId demo_reclose)
       (positions (empty_store\<lparr>positions := [demo_closed]\<rparr>)) = Some demo_closed
   \<and> p_status demo_closed = CLOSED
   \<and> fst (closePosition 60 demo_reclose (empty_store\<lparr>positions := [demo_closed]\<rparr>))
       = Inr (closedRecord 60 demo_reclose demo_closed)
   \<and> p_exitPrice (closedRecord 60 demo_reclose demo_closed) = Some 90
   \<and> p_closeReason (closedRecord 60 demo_reclose demo_closed) = Some STOP_LOSS"
proof -
  have f: "find (\<lambda>p. p_id p = cp_positionId demo_reclose)
       (positions (empty_store\<lparr>positions := [demo_closed]\<rparr>)) = Some demo_closed"
    by (simp add: demo_reclose_def demo_closed_def demo_position_def)
  have c: "p_status demo_closed = CLOSED" by (simp add: demo_closed_def)
  show ?thesis
    using f c closePosition_already_closed [OF f c, of 60]
    by (simp add: demo_reclose_def)
qed

text \<open>
  Claim C4, amended. For every position found by its id, with entry price \<open>e \<noteq> 0\<close> and
  held amount \<open>a\<close>, closing at exit price \<open>p\<close> with optional exit amount \<open>x\<close> takes
  the exit amount to be \<open>x\<close> when \<open>x\<close> is given and not zero, and \<open>a\<close> otherwise
  (\<open>x || a\<close>, not \<open>x ?? a\<close>); pnl is the exit amount times \<open>p - e\<close>; pnl percent is
  \<open>(p - e) / e * 100\<close>; the status is PARTIALLY_CLOSED when \<open>x\<close> is given, not zero and
  below \<open>a\<close>, and CLOSED otherwise. The witness is the specification's example:
  \<open>e = 100\<close>, \<open>a = 2\<close>, \<open>p = 110\<close>, no exit amount, giving pnl 20, pnl percent 10 and
  CLOSED.
\<close>

theorem closePosition_pnl:
  assumes "find (\<lambda>p. p_id p = cp_positionId params) (positions s) = Some pos"
      and "p_entryPrice pos \<noteq> 0"
  shows "fst (closePosition now params s) = Inr (closedRecord now params pos)
       \<and> positions (snd (closePosition now params s)) =
           map (\<lambda>p. if p_id p = cp_positionId params then closedRecord now params pos else p)
             (positions s)
       \<and> p_exitAmount (closedRecord now params pos) =
           Some (case cp_exitAmount params of
                   None \<Rightarrow> p_amount pos
                 | Some x \<Rightarrow> if x = 0 then p_amount pos else x)
       \<and> p_pnl (closedRecord now params pos) =
           Some ((case cp_exitAmount params of
                    None \<Rightarrow> p_amount pos
                  | Some x \<Rightarrow> if x = 0 then p_amount pos else x)
                 * (cp_exitPrice params - p_entryPrice pos))
       \<and> p_pnlPercent (closedRecord now params pos) =
           Some ((cp_exitPrice params - p_entryPrice pos) / p_entryPrice pos * 100)
       \<and> p_status (closedRecord now params pos) =
           (if (case cp_exitAmount params of
                  None \<Rightarrow> False
                | Some x \<Rightarrow> x \<noteq> 0 \<and> x < p_amount pos)
            then PARTIALLY_CLOSED else CLOSED)"
proof -
  have "closePosition now params s =
           (Inr (closedRecord now params pos),
            s\<lparr>positions := map (\<lambda>p. if p_id p = cp_positionId params
                                     then closedRecord now params pos else p) (positions s)\<rparr>)"
    using assms(1) by (rule closePosition_found)
  then have "fst (closePosition now params s) = Inr (closedRecord now params pos)"
    and "positions (snd (closePosition now params s)) =
           map (\<lambda>p. if p_id p = cp_positionId params then closedRecord now params pos else p)
             (positions s)"
    by simp_all
  moreover have "p_exitAmount (closedRecord now params pos) =
           Some (case cp_exitAmount params of
                   None \<Rightarrow> p_amount pos
                 | Some x \<Rightarrow> if x = 0 then p_amount pos else x)"
    by (simp add: closedRecord_def Let_def truthyNum_def split: option.splits)
  moreover have "p_pnl (closedRecord now params pos) =
           Some ((case cp_exitAmount params of
                    None \<Rightarrow> p_amount pos
                  | Some x \<Rightarrow> if x = 0 then p_amount pos else x)
                 * (cp_exitPrice params - p_entryPrice pos))"
    by (simp add: closedRecord_def Let_def truthyNum_def algebra_simps split: option.splits)
  moreover have "p_pnlPercent (closedRecord now params pos) =
           Some ((cp_exitPrice params - p_entryPrice pos) / p_entryPrice pos * 100)"
    by (simp add: closedRecord_def Let_def)
  moreover have "p_status (closedRecord now params pos) =
           (if (case cp_exitAmount params of
                  None \<Rightarrow> False
                | Some x \<Rightarrow> x \<noteq> 0 \<and> x < p_amount pos)
            then PARTIALLY_CLOSED else CLOSED)"
    by (auto simp: closedRecord_def Let_def truthyNum_def split: option.splits)
  ultimately show ?thesis by simp
qed

theorem closePosition_pnl_witness:
  "find (\<lambda>p. p_id p = cp_positionId demo_take_profit)
       (positions (empty_store\<lparr>positions := [demo_position]\<rparr>)) = Some demo_position
   \<and> p_entryPrice demo_position = 100 \<and> p_amount demo_position = 2
   \<and> cp_exitPrice demo_take_profit = 110 \<and> cp_exitAmount demo_take_profit = None
   \<and> fst (closePosition 50 demo_take_profit (empty_store\<lparr>positions := [demo_position]\<rparr>))
       = Inr (closedRecord 50 demo_take_profit demo_position)
   \<and> p_pnl (closedRecord 50 demo_take_profit demo_position) = Some 20
   \<and> p_pnlPercent (closedRecord 50 demo_take_profit demo_position) = Some 10
   \<and> p_status (closedRecord 50 demo_take_profit demo_position) = CLOSED"
proof -
  have f: "find (\<lambda>p. p_id p = cp_positionId demo_take_profit)
       (positions (empty_store\<lparr>positions := [demo_position]\<rparr>)) = Some demo_position"
    by (simp add: demo_take_profit_def demo_position_def)
  have e: "p_entryPrice demo_position \<noteq> 0" by (simp add: demo_position_def)
  show ?thesis
    using f closePosition_pnl [OF f e, of 50]
    by (simp add: demo_take_profit_def demo_position_def)
qed

text \<open>
  Claim C4 as stated fails for an exit amount of zero. With \<open>e = 100\<close>, \<open>a = 2\<close>,
  \<open>p = 110\<close> and \<open>x = 0\<close>, the claim's \<open>x ?? a\<close> is 0, so it gives pnl 0 and, as
  \<open>0 < a\<close>, PARTIALLY_CLOSED; the code records exit amount 2, pnl 20 and CLOSED.
\<close>

theorem closePosition_zero_exit_amount_counterexample:
  "find (\<lambda>p. p_id p = cp_positionId demo_zero_exit)
       (positions (empty_store\<lparr>positions := [demo_position]\<rparr>)) = Some demo_position
   \<and> p_entryPrice demo_position = 100 \<and> p_amount demo_position = 2
   \<and> cp_exitPrice demo_zero_exit = 110 \<and> cp_exitAmount demo_zero_exit = Some 0
   \<and> fst (closePosition 50 demo_zero_exit (empty_store\<lparr>positions := [demo_position]\<rparr>))
       = Inr (closedRecord 50 demo_zero_exit demo_position)
   \<and> spec_exitAmount (cp_exitAmount demo_zero_exit) (p_amount demo_position) = 0
   \<and> p_exitAmount (closedRecord 50 demo_zero_exit demo_position) = Some 2
   \<and> p_pnl (closedRecord 50 demo_zero_exit demo_position) = Some 20
   \<and> p_pnl (closedRecord 50 demo_zero_exit demo_position)
       \<noteq> Some (spec_exitAmount (cp_exitAmount demo_zero_exit) (p_amount demo_position)
                 * (cp_exitPrice demo_zero_exit - p_entryPrice demo_position))
   \<and> spec_exitAmount (cp_exitAmount demo_zero_exit) (p_amount demo_position)
       < p_amount demo_position
   \<and> p_status (closedRecord 50 demo_zero_exit demo_position) = CLOSED"
  by (simp add: closePosition_def closedRecord_def demo_zero_exit_def demo_position_def
      empty_store_def truthyNum_def spec_exitAmount_def Let_def)

subsection \<open>Exit conditions\<close>

lemma orUndefined_truthy: "truthyNum (orUndefined v) = (orUndefined v \<noteq> None)"
  by (cases v) (simp_all add: orUndefined_def truthyNum_def)

lemma openPosition_thresholds:
  assumes "fst (openPosition now prm s) = Inr p'"
  shows "truthyNum (p_stopLoss p') = (p_stopLoss p' \<noteq> None)"
    and "truthyNum (p_takeProfit p') = (p_takeProfit p' \<noteq> None)"
proof -
  from assms have "p_stopLoss p' = orUndefined (op_stopLoss prm)"
    and "p_takeProfit p' = orUndefined (op_takeProfit prm)"
    by (auto simp: openPosition_def createdPosition_def Let_def)
  then show "truthyNum (p_stopLoss p') = (p_stopLoss p' \<noteq> None)"
    and "truthyNum (p_takeProfit p') = (p_takeProfit p' \<noteq> None)"
    by (simp_all add: orUndefined_truthy)
qed

lemma closedRecord_thresholds:
  "p_stopLoss (closedRecord now params pos) = p_stopLoss pos"
  "p_takeProfit (closedRecord now params pos) = p_takeProfit pos"
  by (simp_all add: closedRecord_def Let_def)

lemma checkExitConditions_truthy:
  "checkExitConditions p c =
     (if truthyNum (p_stopLoss p) \<and> (case p_stopLoss p of Some sl \<Rightarrow> c \<le> sl | None \<Rightarrow> False)
      then \<lparr>shouldClose = True, reason = Some STOP_LOSS\<rparr>
      else if truthyNum (p_takeProfit p)
              \<and> (case p_takeProfit p of Some tp \<Rightarrow> tp \<le> c | None \<Rightarrow> False)
      then \<lparr>shouldClose = True, reason = Some TAKE_PROFIT\<rparr>
      else \<lparr>shouldClose = False, reason = None\<rparr>)"
  by (simp add: checkExitConditions_def Let_def truthyNum_def split: option.splits)

text \<open>
  Claim C5. For every position and current price, one evaluation returns STOP_LOSS if the
  stop loss is set and the price is at or below it; otherwise TAKE_PROFIT if the take
  profit is set and the price is at or above it; otherwise no action. The stop loss is
  tested first, the result carries one reason, and when both thresholds are met it is
  STOP_LOSS. The code tests a threshold for being set by its truthiness (present and not
  zero): this is the first conjunct, for any record. \<open>openPosition\<close> stores a zero
  threshold as absent and \<open>closePosition\<close> leaves thresholds alone, so for every position
  the service creates, set means present: the second conjunct.
\<close>

theorem checkExitConditions_stop_loss_first:
  "checkExitConditions p c =
     (if truthyNum (p_stopLoss p) \<and> (case p_stopLoss p of Some sl \<Rightarrow> c \<le> sl | None \<Rightarrow> False)
      then \<lparr>shouldClose = True, reason = Some STOP_LOSS\<rparr>
      else if truthyNum (p_takeProfit p)
              \<and> (case p_takeProfit p of Some tp \<Rightarrow> tp \<le> c | None \<Rightarrow> False)
      then \<lparr>shouldClose = True, reason = Some TAKE_PROFIT\<rparr>
      else \<lparr>shouldClose = False, reason = None\<rparr>)
   \<and> (fst (openPosition now prm s) = Inr p' \<longrightarrow>
        checkExitConditions p' c =
          (if (case p_stopLoss p' of Some sl \<Rightarrow> c \<le> sl | None \<Rightarrow> False)
           then \<lparr>shouldClose = True, reason = Some STOP_LOSS\<rparr>
           else if (case p_takeProfit p' of Some tp \<Rightarrow> tp \<le> c | None \<Rightarrow> False)
           then \<lparr>shouldClose = True, reason = Some TAKE_PROFIT\<rparr>
           else \<lparr>shouldClose = False, reason = None\<rparr>)
        \<and> ((case p_stopLoss p' of Some sl \<Rightarrow> c \<le> sl | None \<Rightarrow> False)
             \<and> (case p_takeProfit p' of Some tp \<Rightarrow> tp \<le> c | None \<Rightarrow> False)
             \<longrightarrow> reason (checkExitConditions p' c) = Some STOP_LOSS))"
proof (intro conjI impI)
  show "checkExitConditions p c =
     (if truthyNum (p_stopLoss p) \<and> (case p_stopLoss p of Some sl \<Rightarrow> c \<le> sl | None \<Rightarrow> False)
      then \<lparr>shouldClose = True, reason = Some STOP_LOSS\<rparr>
      else if truthyNum (p_takeProfit p)
              \<and> (case p_takeProfit p of Some tp \<Rightarrow> tp \<le> c | None \<Rightarrow> False)
      then \<lparr>shouldClose = True, reason = Some TAKE_PROFIT\<rparr>
      else \<lparr>shouldClose = False, reason = None\<rparr>)"
    by (rule checkExitConditions_truthy)
next
  assume o: "fst (openPosition now prm s) = Inr p'"
  show "checkExitConditions p' c =
          (if (case p_stopLoss p' of Some sl \<Rightarrow> c \<le> sl | None \<Rightarrow> False)
           then \<lparr>shouldClose = True, reason = Some STOP_LOSS\<rparr>
           else if (case p_takeProfit p' of Some tp \<Rightarrow> tp \<le> c | None \<Rightarrow> False)
           then \<lparr>shouldClose = True, reason = Some TAKE_PROFIT\<rparr>
           else \<lparr>shouldClose = False, reason = None\<rparr>)"
    using openPosition_thresholds [OF o]
    by (cases "p_stopLoss p'"; cases "p_takeProfit p'")
       (simp_all add: checkExitConditions_truthy)
next
  assume o: "fst (openPosition now prm s) = Inr p'"
    and both: "(case p_stopLoss p' of Some sl \<Rightarrow> c \<le> sl | None \<Rightarrow> False)
             \<and> (case p_takeProfit p' of Some tp \<Rightarrow> tp \<le> c | None \<Rightarrow> False)"
  show "reason (checkExitConditions p' c) = Some STOP_LOSS"
    using openPosition_thresholds [OF o] both
    by (cases "p_stopLoss p'"; cases "p_takeProfit p'")
       (simp_all add: checkExitConditions_truthy)
qed

theorem checkExitConditions_stop_loss_first_witness:
  "fst (openPosition 10 demo_open_params empty_store) = Inr demo_opened
   \<and> p_stopLoss demo_opened = Some 100 \<and> p_takeProfit demo_opened = Some 50
   \<and> checkExitConditions demo_opened 75 = \<lparr>shouldClose = True, reason = Some STOP_LOSS\<rparr>
   \<and> reason (checkExitConditions demo_opened 75) = Some STOP_LOSS"
proof -
  have o: "fst (openPosition 10 demo_open_params empty_store) = Inr demo_opened"
    by (simp add: openPosition_def createdPosition_def demo_open_params_def empty_store_def demo_opened_def
        demo_position_def orUndefined_def truthyNum_def Let_def)
  have t: "p_stopLoss demo_opened = Some 100" "p_takeProfit demo_opened = Some 50"
    by (simp_all add: demo_opened_def)
  have both: "(case p_stopLoss demo_opened of Some sl \<Rightarrow> 75 \<le> sl | None \<Rightarrow> False)
      \<and> (case p_takeProfit demo_opened of Some tp \<Rightarrow> tp \<le> 75 | None \<Rightarrow> False)"
    by (simp add: t)
  note th = checkExitConditions_stop_loss_first
    [of demo_opened 75 10 demo_open_params empty_store demo_opened]
  from th o have "checkExitConditions demo_opened 75 =
          (if (case p_stopLoss demo_opened of Some sl \<Rightarrow> 75 \<le> sl | None \<Rightarrow> False)
           then \<lparr>shouldClose = True, reason = Some STOP_LOSS\<rparr>
           else if (case p_takeProfit demo_opened of Some tp \<Rightarrow> tp \<le> 75 | None \<Rightarrow> False)
           then \<lparr>shouldClose = True, reason = Some TAKE_PROFIT\<rparr>
           else \<lparr>shouldClose = False, reason = None\<rparr>)"
    by blast
  then have c1: "checkExitConditions demo_opened 75
      = \<lparr>shouldClose = True, reason = Some STOP_LOSS\<rparr>"
    by (simp add: t)
  from th o both have c2: "reason (checkExitConditions demo_opened 75) = Some STOP_LOSS"
    by blast
  show ?thesis using o t c1 c2 by simp
qed

subsection \<open>Starting the jobs\<close>

text \<open>
  Claim C10 as stated fails in its last part: the analysis tick is registered with a
  period of 300 seconds, not 60.
\<close>

theorem startScheduler_analysis_period_counterexample:
  "analysisInterval (startScheduler stopped_scheduler) = Some (AnalysisJob, 300000)
   \<and> analysisInterval (startScheduler stopped_scheduler) \<noteq> Some (AnalysisJob, 60 * 1000)"
  by (simp add: startScheduler_def stopped_scheduler_def setInterval_def Let_def)

text \<open>
  Claim C10, amended. \<open>startScheduler\<close> on a scheduler that is not running calls the
  position monitor and the order reconciler once directly and registers each to run every
  60 seconds; it registers the analysis tick to run every 300 seconds (5 minutes), with
  no direct call.
\<close>

theorem startScheduler_registers:
  assumes "\<not> isRunning sch"
  shows "isRunning (startScheduler sch)
       \<and> positionMonitorInterval (startScheduler sch) = Some (PositionMonitorJob, 60 * 1000)
       \<and> orderSyncInterval (startScheduler sch) = Some (OrderSyncJob, 60 * 1000)
       \<and> started (startScheduler sch) = started sch @ [PositionMonitorJob, OrderSyncJob]
       \<and> analysisInterval (startScheduler sch) = Some (AnalysisJob, 300 * 1000)"
  using assms by (simp add: startScheduler_def setInterval_def Let_def)

theorem startScheduler_registers_witness:
  "\<not> isRunning stopped_scheduler
   \<and> positionMonitorInterval (startScheduler stopped_scheduler) = Some (PositionMonitorJob, 60000)
   \<and> orderSyncInterval (startScheduler stopped_scheduler) = Some (OrderSyncJob, 60000)
   \<and> started (startScheduler stopped_scheduler) = [PositionMonitorJob, OrderSyncJob]
   \<and> analysisInterval (startScheduler stopped_scheduler) = Some (AnalysisJob, 300000)"
proof -
  have n: "\<not> isRunning stopped_scheduler" by (simp add: stopped_scheduler_def)
  show ?thesis
    using n startScheduler_registers [OF n]
    by (simp add: stopped_scheduler_def)
qed

subsection \<open>Signals and positions written by the analysis paths\<close>

lemmas io_defs = ret_def throw_def andThen_def tryCatch_def await_def

lemmas demo_defs = demo_settings_def demo_user_def user_store_def empty_store_def
  demo_analysis_def demo_env_def demo_signal_def phantom_position_def

text \<open>
  Claim C3: a position is created only when the reconciler sees the entry BUY order
  filled, never at signal time. The queue worker breaks it. For a user in AUTONOMOUS mode
  with no positions and no tracked orders, a BUY signal of confidence 0.9 (threshold 0.7)
  makes \<open>analysisWorker\<close> open a position at once, from an assumed balance of
  10,000,000: amount 10000 at entry price 100, cost 1,000,000, no entry order id. No order
  is placed or tracked, and the signal is marked executed.
\<close>

theorem analysisWorker_opens_position_at_signal_time:
  "trades user_store = [] \<and> positions user_store = []
   \<and> analysisWorker (demo_env (demo_analysis ACT_BUY (9 / 10))) 1000 ''u1'' ''btc_idr'' user_store
     = (Inr (),
        user_store\<lparr>positions := [phantom_position], trades := [],
          signals := [demo_signal ACT_BUY (9 / 10) SIG_EXECUTED], nextId := 4\<rparr>)"
  by (simp add: analysisWorker_def analysisJob_def autonomousBuy_def autonomousSell_def
      findOpenPositionFor_def countOpenPositions_def createSignal_def openPosition_def
      createdPosition_def updateSignalStatus_def orUndefined_def truthyNum_def io_defs demo_defs Let_def)

text \<open>
  Claim C7: in the scheduled evaluation a signal that is not HOLD and whose confidence is
  below the user's threshold is persisted as SKIPPED. \<open>runScheduledAnalysis\<close> breaks it.
  With threshold 0.7 and a BUY signal of confidence 0.5 it records the time of the
  analysis and persists no signal, where the queue worker, on the same input, persists the
  signal as SKIPPED. (For every input, see \<open>analyseUser_low_confidence_not_persisted\<close>
  below.)
\<close>

theorem runScheduledAnalysis_drops_low_confidence:
  "st_minConfidenceToTrade demo_settings = 7 / 10
   \<and> runScheduledAnalysis (demo_env (demo_analysis ACT_BUY (1 / 2))) 1800000 user_store
     = (Inr (), user_store\<lparr>lastAnalysisTime := [(''u1'', 1800000)]\<rparr>)
   \<and> signals (snd (runScheduledAnalysis (demo_env (demo_analysis ACT_BUY (1 / 2))) 1800000
        user_store)) = []
   \<and> signals (snd (analysisWorker (demo_env (demo_analysis ACT_BUY (1 / 2))) 1000 ''u1''
        ''btc_idr'' user_store)) = [demo_signal ACT_BUY (1 / 2) SKIPPED]"
  by (simp add: runScheduledAnalysis_def scheduledUser_def analyseUser_def
      setLastAnalysisTime_def analysisWorker_def analysisJob_def
      findOpenPositionFor_def countOpenPositions_def createSignal_def
      io_defs demo_defs Let_def)

text \<open>
  Claim C9: a HOLD signal is never persisted. \<open>POST /api/jobs/analyze\<close> breaks it: when
  the generator answers HOLD, the handler creates a PENDING signal whose action is HOLD
  and answers 200. (For every action the generator returns, see
  \<open>jobsAnalyze_persists_any_action\<close> below.)
\<close>

theorem jobsAnalyze_persists_hold:
  "jobsAnalyze (demo_env (demo_analysis HOLD (9 / 10))) 1000 ''u1'' None user_store
     = (Inr 200, user_store\<lparr>signals := [demo_signal HOLD (9 / 10) SIG_PENDING], nextId := 3\<rparr>)
   \<and> sg_action (demo_signal HOLD (9 / 10) SIG_PENDING) = HOLD"
  by (simp add: jobsAnalyze_def createSignal_def truthyStr_def io_defs demo_defs Let_def)

subsection \<open>Sequencing\<close>

lemma andThen_alt:
  "andThen m f s = (case fst (m s) of Inl e \<Rightarrow> (Inl e, snd (m s)) | Inr x \<Rightarrow> f x (snd (m s)))"
  by (simp add: andThen_def split: prod.splits sum.splits)

lemma tryCatch_alt:
  "tryCatch m h s = (case fst (m s) of Inl e \<Rightarrow> h e (snd (m s)) | Inr x \<Rightarrow> (Inr x, snd (m s)))"
  by (simp add: tryCatch_def split: prod.splits sum.splits)

lemma newPrivateAPI_state: "snd (newPrivateAPI e usr s) = s"
  by (simp add: newPrivateAPI_def andThen_alt ret_def throw_def await_def
      split: option.splits sum.splits)

lemma sendAndSaveNotification_eq:
  "sendAndSaveNotification u ty s =
     (Inr (), s\<lparr>notifications :=
                  notifications s @ [\<lparr>n_id = nextId s, n_userId = u, n_type = ty\<rparr>],
               nextId := Suc (nextId s)\<rparr>)"
  by (simp add: sendAndSaveNotification_def createNotification_def tryCatch_alt)

lemma updateSignalStatus_frame:
  "positions (snd (updateSignalStatus sid st s)) = positions s"
  "trades (snd (updateSignalStatus sid st s)) = trades s"
  "users (snd (updateSignalStatus sid st s)) = users s"
  by (simp_all add: updateSignalStatus_def split: option.splits)

lemma openPosition_eq:
  "openPosition now prm s =
     (Inr (createdPosition now (nextId s) prm),
      s\<lparr>positions := positions s @ [createdPosition now (nextId s) prm],
        nextId := Suc (nextId s)\<rparr>)"
  by (simp add: openPosition_def Let_def)

subsection \<open>Order reconciler\<close>

lemma onStatusChange_trades:
  "trades (snd (onStatusChange now trd ns s)) =
     map (\<lambda>t. if t_id t = t_id trd
               then t\<lparr>t_status := ns,
                      t_filledAt := (if ns = FILLED then Some now else t_filledAt t)\<rparr>
               else t) (trades s)"
  by (simp add: onStatusChange_def updateTradeStatus_def findPositionByEntryTrade_def
      andThen_alt ret_def openPosition_eq sendAndSaveNotification_eq updateSignalStatus_frame
      split: sum.splits option.splits)

lemma syncTrade_polled:
  assumes "hasApiKeys usr"
      and "fst (newPrivateAPI e usr s) = Inr api"
      and "api_getOrder e (t_id trd) (t_pair trd)
             (case t_orderId trd of Some oid \<Rightarrow> oid | None \<Rightarrow> []) = Inr ord"
  shows "syncTrade e now (trd, usr) s =
           (if newStatusOf (orderStatus ord) \<noteq> t_status trd
            then onStatusChange now trd (newStatusOf (orderStatus ord)) s
            else (Inr (), s))"
  using assms
  by (simp add: syncTrade_def andThen_alt newPrivateAPI_state await_def ret_def Let_def)

text \<open>
  Claim C8. The reconciler maps the status it reads off the exchange's reply to the local
  status: \<open>filled\<close> to FILLED, \<open>partial\<close> to PARTIAL, \<open>cancelled\<close> to CANCELLED and
  any other status to PLACED; a status the reply reports (a non-empty string) is read as
  it is. For an order that is polled (the user has keys, they decrypt, the exchange
  answers), when the mapped status equals the stored one the store is left as it was, and
  otherwise the order's record gets the mapped status.
\<close>

theorem syncTrade_status_mapping:
  "newStatusOf ''filled'' = FILLED
   \<and> newStatusOf ''partial'' = PARTIAL
   \<and> newStatusOf ''cancelled'' = CANCELLED
   \<and> (st \<noteq> ''filled'' \<and> st \<noteq> ''partial'' \<and> st \<noteq> ''cancelled'' \<longrightarrow> newStatusOf st = PLACED)
   \<and> (go_status ord = Some st \<and> st \<noteq> [] \<longrightarrow> orderStatus ord = st)
   \<and> (hasApiKeys usr \<and> fst (newPrivateAPI e usr s) = Inr api
        \<and> api_getOrder e (t_id trd) (t_pair trd)
             (case t_orderId trd of Some oid \<Rightarrow> oid | None \<Rightarrow> []) = Inr ord
      \<longrightarrow> (newStatusOf (orderStatus ord) = t_status trd
             \<longrightarrow> syncTrade e now (trd, usr) s = (Inr (), s))
        \<and> (newStatusOf (orderStatus ord) \<noteq> t_status trd
             \<longrightarrow> trades (snd (syncTrade e now (trd, usr) s)) =
                   map (\<lambda>t. if t_id t = t_id trd
                             then t\<lparr>t_status := newStatusOf (orderStatus ord),
                                    t_filledAt :=
                                      (if newStatusOf (orderStatus ord) = FILLED
                                       then Some now else t_filledAt t)\<rparr>
                             else t) (trades s)))"
proof (intro conjI impI)
  show "newStatusOf ''filled'' = FILLED" by (simp add: newStatusOf_def)
  show "newStatusOf ''partial'' = PARTIAL" by (simp add: newStatusOf_def)
  show "newStatusOf ''cancelled'' = CANCELLED" by (simp add: newStatusOf_def)
next
  assume "st \<noteq> ''filled'' \<and> st \<noteq> ''partial'' \<and> st \<noteq> ''cancelled''"
  then show "newStatusOf st = PLACED" by (simp add: newStatusOf_def)
next
  assume "go_status ord = Some st \<and> st \<noteq> []"
  then show "orderStatus ord = st" by (simp add: orderStatus_def truthyStr_def)
next
  assume h: "hasApiKeys usr \<and> fst (newPrivateAPI e usr s) = Inr api
        \<and> api_getOrder e (t_id trd) (t_pair trd)
             (case t_orderId trd of Some oid \<Rightarrow> oid | None \<Rightarrow> []) = Inr ord"
    and same: "newStatusOf (orderStatus ord) = t_status trd"
  from h have "syncTrade e now (trd, usr) s =
           (if newStatusOf (orderStatus ord) \<noteq> t_status trd
            then onStatusChange now trd (newStatusOf (orderStatus ord)) s
            else (Inr (), s))"
    by (intro syncTrade_polled) simp_all
  with same show "syncTrade e now (trd, usr) s = (Inr (), s)" by simp
next
  assume h: "hasApiKeys usr \<and> fst (newPrivateAPI e usr s) = Inr api
        \<and> api_getOrder e (t_id trd) (t_pair trd)
             (case t_orderId trd of Some oid \<Rightarrow> oid | None \<Rightarrow> []) = Inr ord"
    and diff: "newStatusOf (orderStatus ord) \<noteq> t_status trd"
  from h have "syncTrade e now (trd, usr) s =
           (if newStatusOf (orderStatus ord) \<noteq> t_status trd
            then onStatusChange now trd (newStatusOf (orderStatus ord)) s
            else (Inr (), s))"
    by (intro syncTrade_polled) simp_all
  with diff show "trades (snd (syncTrade e now (trd, usr) s)) =
                   map (\<lambda>t. if t_id t = t_id trd
                             then t\<lparr>t_status := newStatusOf (orderStatus ord),
                                    t_filledAt :=
                                      (if newStatusOf (orderStatus ord) = FILLED
                                       then Some now else t_filledAt t)\<rparr>
                             else t) (trades s)"
    by (simp add: onStatusChange_trades)
qed

theorem syncTrade_status_mapping_witness:
  "hasApiKeys (Some demo_user)
   \<and> fst (newPrivateAPI (order_env (gw_reply ''open'')) (Some demo_user) trade_store)
       = Inr (''key'', ''secret'')
   \<and> go_status (gw_reply ''open'') = Some ''open''
   \<and> orderStatus (gw_reply ''open'') = ''open''
   \<and> newStatusOf ''open'' = PLACED \<and> t_status demo_trade = PLACED
   \<and> syncTrade (order_env (gw_reply ''open'')) 1000 (demo_trade, Some demo_user) trade_store
       = (Inr (), trade_store)
   \<and> orderStatus (gw_reply ''filled'') = ''filled''
   \<and> trades (snd (syncTrade (order_env (gw_reply ''filled'')) 1000 (demo_trade, Some demo_user)
        trade_store))
       = [demo_trade\<lparr>t_status := FILLED, t_filledAt := Some 1000\<rparr>]"
proof -
  have k: "hasApiKeys (Some demo_user)"
    by (simp add: hasApiKeys_def demo_user_def truthyStr_def)
  have a: "fst (newPrivateAPI (order_env ord) (Some demo_user) trade_store)
       = Inr (''key'', ''secret'')" for ord
    by (simp add: newPrivateAPI_def order_env_def demo_user_def io_defs)
  have g: "api_getOrder (order_env ord) (t_id demo_trade) (t_pair demo_trade)
             (case t_orderId demo_trade of Some oid \<Rightarrow> oid | None \<Rightarrow> []) = Inr ord" for ord
    by (simp add: order_env_def)
  have o: "go_status (gw_reply ''open'') = Some ''open''"
    "go_status (gw_reply ''filled'') = Some ''filled''"
    by (simp_all add: gw_reply_def)
  have t: "t_status demo_trade = PLACED" "trades trade_store = [demo_trade]"
    by (simp_all add: demo_trade_def trade_store_def)
  note th1 = syncTrade_status_mapping
    [of "''open''" "gw_reply ''open''" "Some demo_user" "order_env (gw_reply ''open'')"
        trade_store "(''key'', ''secret'')" demo_trade 1000]
  note th2 = syncTrade_status_mapping
    [of "''filled''" "gw_reply ''filled''" "Some demo_user" "order_env (gw_reply ''filled'')"
        trade_store "(''key'', ''secret'')" demo_trade 1000]
  from th1 o have os1: "orderStatus (gw_reply ''open'') = ''open''" by simp
  from th1 have ns1: "newStatusOf ''open'' = PLACED" by simp
  from th1 k a g os1 ns1 t have r1:
    "syncTrade (order_env (gw_reply ''open'')) 1000 (demo_trade, Some demo_user) trade_store
       = (Inr (), trade_store)"
    by simp
  from th2 o have os2: "orderStatus (gw_reply ''filled'') = ''filled''" by simp
  from th2 have ns2: "newStatusOf ''filled'' = FILLED" by simp
  from th2 k a g os2 ns2 t have r2:
    "trades (snd (syncTrade (order_env (gw_reply ''filled'')) 1000 (demo_trade, Some demo_user)
        trade_store)) = [demo_trade\<lparr>t_status := FILLED, t_filledAt := Some 1000\<rparr>]"
    by simp
  show ?thesis using k a o os1 ns1 t r1 os2 r2 by simp
qed

subsection \<open>Position creation by the reconciler\<close>

lemma updateTradeStatus_eq:
  "updateTradeStatus tid ns now s =
     (Inr (), s\<lparr>trades :=
        map (\<lambda>t. if t_id t = tid
                  then t\<lparr>t_status := ns,
                         t_filledAt := (if ns = FILLED then Some now else t_filledAt t)\<rparr>
                  else t) (trades s)\<rparr>)"
  by (simp add: updateTradeStatus_def)

lemma onStatusChange_positions:
  "positions (snd (onStatusChange now trd ns s)) =
     (if ns = FILLED \<and> t_type trd = BUY
         \<and> find (\<lambda>p. p_userId p = t_userId trd \<and> p_entryTradeId p = t_orderId trd)
              (positions s) = None
      then positions s @ [createdPosition now (nextId s) (entryParams trd)]
      else positions s)"
  by (simp add: onStatusChange_def updateTradeStatus_eq findPositionByEntryTrade_def
      andThen_alt ret_def openPosition_eq sendAndSaveNotification_eq updateSignalStatus_frame
      entryParams_def split: sum.splits option.splits)

lemma syncTrade_positions:
  "positions (snd (syncTrade e now (trd, usr) s)) = positions s
   \<or> (find (\<lambda>p. p_userId p = t_userId trd \<and> p_entryTradeId p = t_orderId trd)
         (positions s) = None
      \<and> positions (snd (syncTrade e now (trd, usr) s))
          = positions s @ [createdPosition now (nextId s) (entryParams trd)])"
  by (simp add: syncTrade_def andThen_alt newPrivateAPI_state await_def ret_def Let_def
      onStatusChange_positions split: sum.splits)

lemma reconcileOne_positions:
  "positions (snd (reconcileOne e now (trd, usr) s)) = positions s
   \<or> (find (\<lambda>p. p_userId p = t_userId trd \<and> p_entryTradeId p = t_orderId trd)
         (positions s) = None
      \<and> positions (snd (reconcileOne e now (trd, usr) s))
          = positions s @ [createdPosition now (nextId s) (entryParams trd)])"
  using syncTrade_positions [of e now trd usr s]
  by (simp add: reconcileOne_def tryCatch_alt ret_def split: sum.splits)

lemma reconcileOne_ok: "fst (reconcileOne e now tu s) = Inr ()"
  by (simp add: reconcileOne_def tryCatch_alt ret_def split: sum.splits)

lemma createdPosition_link:
  "p_userId (createdPosition now i (entryParams trd)) = t_userId trd"
  "p_entryTradeId (createdPosition now i (entryParams trd)) = t_orderId trd"
  by (simp_all add: createdPosition_def entryParams_def)

lemma find_append_hit: "P x \<Longrightarrow> find P (xs @ [x]) \<noteq> None"
  by (induction xs) auto

lemma find_None_iff_set: "find P xs = None \<longleftrightarrow> (\<forall>x\<in>set xs. \<not> P x)"
  by (induction xs) auto

lemma reconcileOne_replay:
  assumes "positions (snd (reconcileOne e1 now1 (trd, usr1) s)) \<noteq> positions s"
  shows "positions (snd (reconcileOne e2 now2 (trd, usr2) (snd (reconcileOne e1 now1 (trd, usr1) s))))
       = positions (snd (reconcileOne e1 now1 (trd, usr1) s))"
proof -
  let ?s1 = "snd (reconcileOne e1 now1 (trd, usr1) s)"
  let ?P = "\<lambda>p. p_userId p = t_userId trd \<and> p_entryTradeId p = t_orderId trd"
  from assms reconcileOne_positions [of e1 now1 trd usr1 s]
  have "positions ?s1 = positions s @ [createdPosition now1 (nextId s) (entryParams trd)]"
    by blast
  then have "find ?P (positions ?s1) \<noteq> None"
    by (simp add: find_append_hit createdPosition_link)
  with reconcileOne_positions [of e2 now2 trd usr2 ?s1] show ?thesis by blast
qed

lemma reconcileOne_length:
  "length (positions (snd (reconcileOne e now (trd, usr) s))) \<le> Suc (length (positions s))"
  using reconcileOne_positions [of e now trd usr s] by auto

lemma reconcileOne_twice_length:
  "length (positions (snd (reconcileOne e2 now2 (trd, usr2)
      (snd (reconcileOne e1 now1 (trd, usr1) s))))) \<le> Suc (length (positions s))"
proof (cases "positions (snd (reconcileOne e1 now1 (trd, usr1) s)) = positions s")
  case True
  with reconcileOne_length [of e2 now2 trd usr2 "snd (reconcileOne e1 now1 (trd, usr1) s)"]
  show ?thesis by simp
next
  case False
  from reconcileOne_replay [OF False, of e2 now2 usr2]
    reconcileOne_length [of e1 now1 trd usr1 s]
  show ?thesis by simp
qed

lemma reconcileOne_linkedPairs:
  assumes "distinct (linkedPairs s)"
  shows "distinct (linkedPairs (snd (reconcileOne e now (trd, usr) s)))"
proof -
  let ?s1 = "snd (reconcileOne e now (trd, usr) s)"
  let ?P = "\<lambda>p. p_userId p = t_userId trd \<and> p_entryTradeId p = t_orderId trd"
  let ?np = "createdPosition now (nextId s) (entryParams trd)"
  from reconcileOne_positions [of e now trd usr s]
  consider "positions ?s1 = positions s"
    | "find ?P (positions s) = None" "positions ?s1 = positions s @ [?np]"
    by auto
  then show ?thesis
  proof cases
    case 1
    with assms show ?thesis by (simp add: linkedPairs_def)
  next
    case 2
    from 2(1) have "\<forall>x\<in>set (positions s). \<not> ?P x" by (simp add: find_None_iff_set)
    then have "(t_userId trd, t_orderId trd) \<notin> set (linkedPairs s)"
      by (auto simp: linkedPairs_def)
    with assms 2(2) show ?thesis
      by (simp add: linkedPairs_def createdPosition_link)
  qed
qed

lemma reconcileOne_linkedOrders:
  assumes "distinct (linkedOrders s)"
      and "\<forall>p\<in>set (positions s). p_entryTradeId p = t_orderId trd \<longrightarrow> p_userId p = t_userId trd"
  shows "distinct (linkedOrders (snd (reconcileOne e now (trd, usr) s)))"
proof -
  let ?s1 = "snd (reconcileOne e now (trd, usr) s)"
  let ?P = "\<lambda>p. p_userId p = t_userId trd \<and> p_entryTradeId p = t_orderId trd"
  let ?np = "createdPosition now (nextId s) (entryParams trd)"
  from reconcileOne_positions [of e now trd usr s]
  consider "positions ?s1 = positions s"
    | "find ?P (positions s) = None" "positions ?s1 = positions s @ [?np]"
    by auto
  then show ?thesis
  proof cases
    case 1
    with assms show ?thesis by (simp add: linkedOrders_def)
  next
    case 2
    from 2(1) have "\<forall>x\<in>set (positions s). \<not> ?P x" by (simp add: find_None_iff_set)
    with assms(2) have "t_orderId trd \<notin> set (linkedOrders s)"
      by (auto simp: linkedOrders_def)
    with assms(1) 2(2) show ?thesis
      by (simp add: linkedOrders_def createdPosition_link)
  qed
qed

lemma forEach_reconcile_linkedPairs:
  "distinct (linkedPairs s) \<Longrightarrow>
   distinct (linkedPairs (snd (forEach tus (reconcileOne e now) s)))"
proof (induction tus arbitrary: s)
  case Nil
  then show ?case by simp
next
  case (Cons tu tus)
  obtain trd usr where tu: "tu = (trd, usr)" by (cases tu)
  have ok: "fst (reconcileOne e now tu s) = Inr ()" by (rule reconcileOne_ok)
  have d: "distinct (linkedPairs (snd (reconcileOne e now tu s)))"
    using Cons.prems by (simp add: tu reconcileOne_linkedPairs)
  have "forEach (tu # tus) (reconcileOne e now) s
      = forEach tus (reconcileOne e now) (snd (reconcileOne e now tu s))"
    using ok by (cases "reconcileOne e now tu s") simp
  with Cons.IH [OF d] show ?case by simp
qed

lemma syncPendingOrders_linkedPairs:
  assumes "distinct (linkedPairs s)"
  shows "distinct (linkedPairs (snd (syncPendingOrders e now s)))"
  using assms
  by (simp add: syncPendingOrders_def tryCatch_alt andThen_alt findPendingTrades_def ret_def
      forEach_reconcile_linkedPairs split: sum.splits)

text \<open>
  The lookup is scoped by owner: the reconciler looks for an existing position of the same
  owner with the same entry order id. Two tracked BUY orders of two owners that carry the
  same exchange order id (\<open>77\<close>, on two pairs), both reported filled, each get a
  position in one cycle.
\<close>

theorem reconciler_two_owners_counterexample:
  "t_orderId demo_trade = Some ''77'' \<and> t_orderId demo_trade2 = Some ''77''
   \<and> t_userId demo_trade = ''u1'' \<and> t_userId demo_trade2 = ''u2''
   \<and> positions two_owner_store = []
   \<and> map p_entryTradeId
         (positions (snd (syncPendingOrders (order_env (gw_reply ''filled'')) 1000
            two_owner_store)))
       = [Some ''77'', Some ''77'']
   \<and> map p_userId
         (positions (snd (syncPendingOrders (order_env (gw_reply ''filled'')) 1000
            two_owner_store)))
       = [''u1'', ''u2'']
   \<and> \<not> distinct (linkedOrders (snd (syncPendingOrders (order_env (gw_reply ''filled'')) 1000
            two_owner_store)))"
  by (simp add: syncPendingOrders_def reconcileOne_def syncTrade_def onStatusChange_def
      findPendingTrades_def findPositionByEntryTrade_def updateTradeStatus_def
      openPosition_def createdPosition_def sendAndSaveNotification_def createNotification_def
      newPrivateAPI_def hasApiKeys_def truthyStr_def orderStatus_def newStatusOf_def
      orUndefined_def truthyNum_def linkedOrders_def io_defs
      two_owner_store_def demo_trade2_def demo_trade_def demo_user2_def demo_user_def
      empty_store_def order_env_def gw_reply_def Let_def)

text \<open>
  Passes taken one after the other. Two passes of the reconciler over the same tracked
  order, each run to its end before the next starts, the second still holding the order
  as the first read it, create at most one position: a pass creates a position only when
  no position of the order's owner carries the order's exchange order id, and once the
  first pass has created one, the second creates none. Pairs of owner and entry order id
  stay distinct over such passes and over whole cycles run one after the other.
\<close>

theorem reconciler_creates_at_most_one_position:
  "length (positions (snd (reconcileOne e2 now2 (trd, usr2)
      (snd (reconcileOne e1 now1 (trd, usr1) s))))) \<le> Suc (length (positions s))
   \<and> (positions (snd (reconcileOne e1 now1 (trd, usr1) s)) \<noteq> positions s \<longrightarrow>
        find (\<lambda>p. p_userId p = t_userId trd \<and> p_entryTradeId p = t_orderId trd) (positions s)
          = None
        \<and> positions (snd (reconcileOne e2 now2 (trd, usr2)
             (snd (reconcileOne e1 now1 (trd, usr1) s))))
           = positions (snd (reconcileOne e1 now1 (trd, usr1) s)))
   \<and> (distinct (linkedPairs s) \<longrightarrow>
        distinct (linkedPairs (snd (reconcileOne e1 now1 (trd, usr1) s)))
        \<and> distinct (linkedPairs (snd (syncPendingOrders e1 now1 s)))
        \<and> distinct (linkedPairs (snd (syncPendingOrders e2 now2
             (snd (syncPendingOrders e1 now1 s))))))
   \<and> (distinct (linkedOrders s)
        \<and> (\<forall>p\<in>set (positions s).
              p_entryTradeId p = t_orderId trd \<longrightarrow> p_userId p = t_userId trd) \<longrightarrow>
        distinct (linkedOrders (snd (reconcileOne e1 now1 (trd, usr1) s))))"
proof (intro conjI impI)
  show "length (positions (snd (reconcileOne e2 now2 (trd, usr2)
      (snd (reconcileOne e1 now1 (trd, usr1) s))))) \<le> Suc (length (positions s))"
    by (rule reconcileOne_twice_length)
next
  assume c: "positions (snd (reconcileOne e1 now1 (trd, usr1) s)) \<noteq> positions s"
  with reconcileOne_positions [of e1 now1 trd usr1 s]
  show "find (\<lambda>p. p_userId p = t_userId trd \<and> p_entryTradeId p = t_orderId trd) (positions s)
          = None"
    by auto
  from c show "positions (snd (reconcileOne e2 now2 (trd, usr2)
             (snd (reconcileOne e1 now1 (trd, usr1) s))))
           = positions (snd (reconcileOne e1 now1 (trd, usr1) s))"
    by (rule reconcileOne_replay)
next
  assume d: "distinct (linkedPairs s)"
  then show "distinct (linkedPairs (snd (reconcileOne e1 now1 (trd, usr1) s)))"
    by (rule reconcileOne_linkedPairs)
  from d have d1: "distinct (linkedPairs (snd (syncPendingOrders e1 now1 s)))"
    by (rule syncPendingOrders_linkedPairs)
  then show "distinct (linkedPairs (snd (syncPendingOrders e1 now1 s)))" .
  from d1 show "distinct (linkedPairs (snd (syncPendingOrders e2 now2
             (snd (syncPendingOrders e1 now1 s)))))"
    by (rule syncPendingOrders_linkedPairs)
next
  assume "distinct (linkedOrders s)
        \<and> (\<forall>p\<in>set (positions s).
              p_entryTradeId p = t_orderId trd \<longrightarrow> p_userId p = t_userId trd)"
  then show "distinct (linkedOrders (snd (reconcileOne e1 now1 (trd, usr1) s)))"
    by (intro reconcileOne_linkedOrders) simp_all
qed

theorem reconciler_creates_at_most_one_position_witness:
  "positions trade_store = []
   \<and> distinct (linkedPairs trade_store) \<and> distinct (linkedOrders trade_store)
   \<and> positions (snd (reconcileOne (order_env (gw_reply ''filled'')) 1000
         (demo_trade, Some demo_user) trade_store))
       = [createdPosition 1000 6 (entryParams demo_trade)]
   \<and> p_entryTradeId (createdPosition 1000 6 (entryParams demo_trade)) = Some ''77''
   \<and> positions (snd (reconcileOne (order_env (gw_reply ''filled'')) 2000
         (demo_trade, Some demo_user)
         (snd (reconcileOne (order_env (gw_reply ''filled'')) 1000
            (demo_trade, Some demo_user) trade_store))))
       = [createdPosition 1000 6 (entryParams demo_trade)]
   \<and> distinct (linkedPairs (snd (reconcileOne (order_env (gw_reply ''filled'')) 1000
         (demo_trade, Some demo_user) trade_store)))
   \<and> distinct (linkedOrders (snd (reconcileOne (order_env (gw_reply ''filled'')) 1000
         (demo_trade, Some demo_user) trade_store)))"
proof -
  let ?E = "order_env (gw_reply ''filled'')"
  let ?s1 = "snd (reconcileOne ?E 1000 (demo_trade, Some demo_user) trade_store)"
  have p0: "positions trade_store = []"
    by (simp add: trade_store_def user_store_def empty_store_def)
  have d0: "distinct (linkedPairs trade_store)" "distinct (linkedOrders trade_store)"
    by (simp_all add: linkedPairs_def linkedOrders_def p0)
  have b0: "\<forall>p\<in>set (positions trade_store).
      p_entryTradeId p = t_orderId demo_trade \<longrightarrow> p_userId p = t_userId demo_trade"
    by (simp add: p0)
  have r1: "positions ?s1 = [createdPosition 1000 6 (entryParams demo_trade)]"
    by (simp add: reconcileOne_def syncTrade_def onStatusChange_def
      findPositionByEntryTrade_def updateTradeStatus_def openPosition_def
      sendAndSaveNotification_def createNotification_def entryParams_def
      newPrivateAPI_def hasApiKeys_def truthyStr_def orderStatus_def newStatusOf_def
      io_defs trade_store_def user_store_def demo_trade_def demo_user_def
      empty_store_def order_env_def gw_reply_def Let_def)
  have l: "p_entryTradeId (createdPosition 1000 6 (entryParams demo_trade)) = Some ''77''"
    by (simp add: createdPosition_def entryParams_def demo_trade_def)
  note th = reconciler_creates_at_most_one_position
    [of ?E 2000 demo_trade "Some demo_user" ?E 1000 "Some demo_user" trade_store]
  from r1 p0 have ne: "positions ?s1 \<noteq> positions trade_store" by simp
  from th ne r1 have r2: "positions (snd (reconcileOne ?E 2000 (demo_trade, Some demo_user) ?s1))
       = [createdPosition 1000 6 (entryParams demo_trade)]"
    by simp
  from th d0 have d1: "distinct (linkedPairs ?s1)" by blast
  from th d0 b0 have d2: "distinct (linkedOrders ?s1)" by blast
  show ?thesis using p0 d0 r1 l r2 d1 d2 by simp
qed

subsection \<open>Position monitor cycle\<close>

lemma toLowerCase_btc_idr: "toLowerCase ''btc_idr'' = ''btc_idr''"
  by (simp add: toLowerCase_def lower_char_def)

lemma closedRecord_id: "p_id (closedRecord now prm pos) = p_id pos"
  by (simp add: closedRecord_def Let_def)

lemma find_id_mem: "find (\<lambda>x. p_id x = i) xs = Some y \<Longrightarrow> p_id y = i \<and> y \<in> set xs"
  by (induction xs) (auto split: if_splits)

lemma find_distinct_id:
  "distinct (map p_id xs) \<Longrightarrow> y \<in> set xs \<Longrightarrow> find (\<lambda>x. p_id x = p_id y) xs = Some y"
  by (induction xs) (auto simp: image_iff)

lemma find_map_other:
  "i \<noteq> j \<Longrightarrow> p_id upd = j \<Longrightarrow>
   find (\<lambda>x. p_id x = i) (map (\<lambda>x. if p_id x = j then upd else x) xs)
     = find (\<lambda>x. p_id x = i) xs"
  by (induction xs) auto

lemma find_map_hit:
  "find (\<lambda>x. p_id x = j) xs = Some y \<Longrightarrow> p_id upd = j \<Longrightarrow>
   find (\<lambda>x. p_id x = j) (map (\<lambda>x. if p_id x = j then upd else x) xs) = Some upd"
  by (induction xs) (auto split: if_splits)

lemma newPrivateAPI_fst: "fst (newPrivateAPI e usr s) = fst (newPrivateAPI e usr s')"
  by (simp add: newPrivateAPI_def andThen_alt ret_def throw_def await_def
      split: option.splits sum.splits)

lemma closePosition_positions:
  "positions (snd (closePosition now prm s)) =
     (case find (\<lambda>x. p_id x = cp_positionId prm) (positions s) of
        None \<Rightarrow> positions s
      | Some pos \<Rightarrow>
          map (\<lambda>x. if p_id x = cp_positionId prm then closedRecord now prm pos else x)
            (positions s))"
  by (simp add: closePosition_def Let_def split: option.splits)

lemma sendAndSaveNotification_positions:
  "positions (snd (sendAndSaveNotification u ty s)) = positions s"
  by (simp add: sendAndSaveNotification_eq)

lemma executeExit_positions:
  "positions (snd (executeExit e now p usr c rsn s)) =
     (if hasApiKeys usr \<and> \<not> isl (fst (newPrivateAPI e usr s))
         \<and> \<not> isl (api_trade e (p_id p) (sellRequest p c))
      then positions (snd (closePosition now (exitParams p c rsn) s))
      else positions s)"
  by (simp add: executeExit_def andThen_alt ret_def await_def newPrivateAPI_state
      sendAndSaveNotification_eq split: sum.splits)

lemma monitorPosition_ok: "fst (monitorPosition e now tickers pu s) = Inr ()"
  by (simp add: monitorPosition_def tryCatch_alt ret_def Let_def
      split: option.splits sum.splits)

lemma monitorPosition_positions:
  "positions (snd (monitorPosition e now tickers (p, usr) s)) =
     (case map_of tickers (toLowerCase (p_pair p)) of
        None \<Rightarrow> positions s
      | Some c \<Rightarrow>
          (case reason (checkExitConditions p c) of
             None \<Rightarrow> positions s
           | Some rsn \<Rightarrow>
               if shouldClose (checkExitConditions p c)
               then positions (snd (executeExit e now p usr c rsn s))
               else positions s))"
  by (simp add: monitorPosition_def tryCatch_alt ret_def Let_def
      split: option.splits sum.splits)

lemma closePosition_other:
  assumes "i \<noteq> cp_positionId prm"
  shows "find (\<lambda>x. p_id x = i) (positions (snd (closePosition now prm s)))
       = find (\<lambda>x. p_id x = i) (positions s)"
proof (cases "find (\<lambda>x. p_id x = cp_positionId prm) (positions s)")
  case None
  then show ?thesis by (simp add: closePosition_positions)
next
  case (Some pos)
  from find_id_mem [OF Some] have "p_id pos = cp_positionId prm" by simp
  then have u: "p_id (closedRecord now prm pos) = cp_positionId prm"
    by (simp add: closedRecord_id)
  have "positions (snd (closePosition now prm s))
      = map (\<lambda>x. if p_id x = cp_positionId prm then closedRecord now prm pos else x)
          (positions s)"
    using Some by (simp add: closePosition_positions)
  then show ?thesis
    using find_map_other [OF assms u, of "positions s"] by simp
qed

lemma executeExit_other:
  assumes "i \<noteq> p_id p"
  shows "find (\<lambda>x. p_id x = i) (positions (snd (executeExit e now p usr c rsn s)))
       = find (\<lambda>x. p_id x = i) (positions s)"
proof -
  have "i \<noteq> cp_positionId (exitParams p c rsn)"
    using assms by (simp add: exitParams_def)
  from closePosition_other [OF this, of now s] show ?thesis
    by (simp add: executeExit_positions)
qed

lemma monitorPosition_other:
  assumes "i \<noteq> p_id p"
  shows "find (\<lambda>x. p_id x = i) (positions (snd (monitorPosition e now tickers (p, usr) s)))
       = find (\<lambda>x. p_id x = i) (positions s)"
proof -
  have "positions (snd (monitorPosition e now tickers (p, usr) s)) = positions s
      \<or> (\<exists>c rsn. positions (snd (monitorPosition e now tickers (p, usr) s))
            = positions (snd (executeExit e now p usr c rsn s)))"
    by (auto simp: monitorPosition_positions split: option.splits)
  then show ?thesis
    using executeExit_other [OF assms] by (elim disjE exE) simp_all
qed

lemma monitorPosition_failed:
  assumes "map_of tickers (toLowerCase (p_pair p)) = Some c"
      and "api_trade e (p_id p) (sellRequest p c) = Inl err"
  shows "positions (snd (monitorPosition e now tickers (p, usr) s)) = positions s"
  using assms
  by (simp add: monitorPosition_positions executeExit_positions split: option.splits)

lemma monitorPosition_closed:
  assumes "map_of tickers (toLowerCase (p_pair p)) = Some c"
      and "shouldClose (checkExitConditions p c)"
      and "reason (checkExitConditions p c) = Some rsn"
      and "hasApiKeys usr"
      and "fst (newPrivateAPI e usr s) = Inr api"
      and "api_trade e (p_id p) (sellRequest p c) = Inr oid"
      and "find (\<lambda>x. p_id x = p_id p) (positions s) = Some p"
  shows "find (\<lambda>x. p_id x = p_id p) (positions (snd (monitorPosition e now tickers (p, usr) s)))
       = Some (closedRecord now (exitParams p c rsn) p)"
proof -
  have "positions (snd (monitorPosition e now tickers (p, usr) s))
      = map (\<lambda>x. if p_id x = p_id p then closedRecord now (exitParams p c rsn) p else x)
          (positions s)"
    using assms
    by (simp add: monitorPosition_positions executeExit_positions closePosition_positions
        exitParams_def)
  with assms(7) show ?thesis
    by (simp add: find_map_hit closedRecord_id)
qed

lemma forEach_monitor_step:
  "forEach (pu # ops) (monitorPosition e now tickers) s
     = forEach ops (monitorPosition e now tickers) (snd (monitorPosition e now tickers pu s))"
  using monitorPosition_ok [of e now tickers pu s]
  by (cases "monitorPosition e now tickers pu s") simp

lemma forEach_monitor_ok: "fst (forEach ops (monitorPosition e now tickers) s) = Inr ()"
  by (induction ops arbitrary: s) (simp_all del: forEach.simps(2) add: forEach_monitor_step)

lemma forEach_monitor_other:
  "i \<notin> set (map (\<lambda>pu. p_id (fst pu)) ops) \<Longrightarrow>
   find (\<lambda>x. p_id x = i) (positions (snd (forEach ops (monitorPosition e now tickers) s)))
     = find (\<lambda>x. p_id x = i) (positions s)"
proof (induction ops arbitrary: s)
  case Nil
  then show ?case by simp
next
  case (Cons pu ops)
  obtain q u where pu: "pu = (q, u)" by (cases pu)
  from Cons.prems pu have "i \<noteq> p_id q" and rest: "i \<notin> set (map (\<lambda>pu. p_id (fst pu)) ops)"
    by auto
  then show ?case
    by (simp del: forEach.simps(2)
        add: forEach_monitor_step pu Cons.IH [OF rest] monitorPosition_other)
qed

lemma forEach_monitor_failed:
  assumes "map_of tickers (toLowerCase (p_pair p)) = Some c"
      and "api_trade e (p_id p) (sellRequest p c) = Inl err"
  shows "distinct (map (\<lambda>pu. p_id (fst pu)) ops) \<Longrightarrow> (p, usr) \<in> set ops \<Longrightarrow>
     find (\<lambda>x. p_id x = p_id p) (positions (snd (forEach ops (monitorPosition e now tickers) s)))
       = find (\<lambda>x. p_id x = p_id p) (positions s)"
proof (induction ops arbitrary: s)
  case Nil
  then show ?case by simp
next
  case (Cons pu ops)
  obtain q u where pu: "pu = (q, u)" by (cases pu)
  show ?case
  proof (cases "pu = (p, usr)")
    case True
    with Cons.prems have "p_id p \<notin> set (map (\<lambda>pu. p_id (fst pu)) ops)" by auto
    then show ?thesis
      by (simp del: forEach.simps(2) add: forEach_monitor_step True forEach_monitor_other
          monitorPosition_failed [OF assms])
  next
    case False
    with Cons.prems have mem: "(p, usr) \<in> set ops" and d: "distinct (map (\<lambda>pu. p_id (fst pu)) ops)"
      by auto
    from mem have "p_id (fst (p, usr)) \<in> (\<lambda>pu. p_id (fst pu)) ` set ops" by (rule imageI)
    then have inn: "p_id p \<in> (\<lambda>pu. p_id (fst pu)) ` set ops" by simp
    from Cons.prems(1) pu have "p_id q \<notin> (\<lambda>pu. p_id (fst pu)) ` set ops" by simp
    with inn have "p_id p \<noteq> p_id q" by (cases "p_id p = p_id q") simp_all
    then show ?thesis
      by (simp del: forEach.simps(2)
          add: forEach_monitor_step pu Cons.IH [OF d mem] monitorPosition_other)
  qed
qed

lemma forEach_monitor_closed:
  assumes "map_of tickers (toLowerCase (p_pair p)) = Some c"
      and "shouldClose (checkExitConditions p c)"
      and "reason (checkExitConditions p c) = Some rsn"
      and "hasApiKeys usr"
      and "fst (newPrivateAPI e usr s0) = Inr api"
      and "api_trade e (p_id p) (sellRequest p c) = Inr oid"
  shows "distinct (map (\<lambda>pu. p_id (fst pu)) ops) \<Longrightarrow> (p, usr) \<in> set ops \<Longrightarrow>
     find (\<lambda>x. p_id x = p_id p) (positions s) = Some p \<Longrightarrow>
     find (\<lambda>x. p_id x = p_id p) (positions (snd (forEach ops (monitorPosition e now tickers) s)))
       = Some (closedRecord now (exitParams p c rsn) p)"
proof (induction ops arbitrary: s)
  case Nil
  then show ?case by simp
next
  case (Cons pu ops)
  obtain q u where pu: "pu = (q, u)" by (cases pu)
  have api: "fst (newPrivateAPI e usr s') = Inr api" for s'
    using assms(5) newPrivateAPI_fst [of e usr s' s0] by simp
  show ?case
  proof (cases "pu = (p, usr)")
    case True
    with Cons.prems have "p_id p \<notin> set (map (\<lambda>pu. p_id (fst pu)) ops)" by auto
    then show ?thesis
      by (simp del: forEach.simps(2) add: forEach_monitor_step True forEach_monitor_other
          monitorPosition_closed [OF assms(1-4) api assms(6) Cons.prems(3)])
  next
    case False
    with Cons.prems have mem: "(p, usr) \<in> set ops" and d: "distinct (map (\<lambda>pu. p_id (fst pu)) ops)"
      by auto
    from mem have "p_id (fst (p, usr)) \<in> (\<lambda>pu. p_id (fst pu)) ` set ops" by (rule imageI)
    then have inn: "p_id p \<in> (\<lambda>pu. p_id (fst pu)) ` set ops" by simp
    from Cons.prems(1) pu have "p_id q \<notin> (\<lambda>pu. p_id (fst pu)) ` set ops" by simp
    with inn have ne: "p_id p \<noteq> p_id q" by (cases "p_id p = p_id q") simp_all
    have "find (\<lambda>x. p_id x = p_id p)
            (positions (snd (monitorPosition e now tickers (q, u) s))) = Some p"
      using ne Cons.prems(3) by (simp add: monitorPosition_other)
    from Cons.IH [OF d mem this] show ?thesis
      by (simp del: forEach.simps(2) add: forEach_monitor_step pu)
  qed
qed

lemma checkPositionsForSLTP_ok: "fst (checkPositionsForSLTP e now s) = Inr ()"
  by (simp add: checkPositionsForSLTP_def tryCatch_alt ret_def split: sum.splits)

lemma checkPositionsForSLTP_loop:
  assumes "getSummaries e = Inr tickers"
  shows "snd (checkPositionsForSLTP e now s) =
     snd (forEach
            (map (\<lambda>p. (p, find (\<lambda>u. u_id u = p_userId p) (users s)))
               (filter (\<lambda>p. p_status p = OPEN) (positions s)))
            (monitorPosition e now tickers) s)"
  using assms
  by (simp add: checkPositionsForSLTP_def tryCatch_alt andThen_alt await_def
      findOpenPositions_def ret_def split: sum.splits)

lemma openPositions_distinct:
  assumes "distinct (map p_id (positions s))"
  shows "distinct (map (\<lambda>pu. p_id (fst pu))
           (map (\<lambda>p. (p, find (\<lambda>u. u_id u = p_userId p) (users s)))
              (filter (\<lambda>p. p_status p = OPEN) (positions s))))"
  using assms by (simp add: comp_def distinct_map_filter)

text \<open>
  Claim C6. A position monitor cycle never rejects. When the store's position ids are
  distinct and the ticker snapshot is obtained, a position whose SELL order the exchange
  refuses is left as it was, OPEN, for the next cycle; and every other open position of
  the batch that is triggered at its current price, whose owner has keys that decrypt and
  whose SELL order is accepted, is closed by the cycle with the triggering reason at that
  price.
\<close>

theorem monitor_cycle_isolates_failures:
  "fst (checkPositionsForSLTP e now s) = Inr ()
   \<and> (distinct (map p_id (positions s)) \<and> getSummaries e = Inr tickers
        \<and> p \<in> set (positions s) \<and> p_status p = OPEN
        \<and> map_of tickers (toLowerCase (p_pair p)) = Some c
        \<and> api_trade e (p_id p) (sellRequest p c) = Inl err
      \<longrightarrow> find (\<lambda>x. p_id x = p_id p) (positions (snd (checkPositionsForSLTP e now s))) = Some p
        \<and> (\<forall>q c' rsn api oid.
              q \<in> set (positions s) \<and> p_status q = OPEN
              \<and> map_of tickers (toLowerCase (p_pair q)) = Some c'
              \<and> shouldClose (checkExitConditions q c')
              \<and> reason (checkExitConditions q c') = Some rsn
              \<and> hasApiKeys (find (\<lambda>u. u_id u = p_userId q) (users s))
              \<and> fst (newPrivateAPI e (find (\<lambda>u. u_id u = p_userId q) (users s)) s) = Inr api
              \<and> api_trade e (p_id q) (sellRequest q c') = Inr oid
            \<longrightarrow> find (\<lambda>x. p_id x = p_id q) (positions (snd (checkPositionsForSLTP e now s)))
                  = Some (closedRecord now (exitParams q c' rsn) q)
              \<and> p_status (closedRecord now (exitParams q c' rsn) q) = CLOSED
              \<and> p_closeReason (closedRecord now (exitParams q c' rsn) q) = Some rsn
              \<and> p_exitPrice (closedRecord now (exitParams q c' rsn) q) = Some c'))"
proof (intro conjI impI allI)
  show "fst (checkPositionsForSLTP e now s) = Inr ()" by (rule checkPositionsForSLTP_ok)
next
  assume h: "distinct (map p_id (positions s)) \<and> getSummaries e = Inr tickers
        \<and> p \<in> set (positions s) \<and> p_status p = OPEN
        \<and> map_of tickers (toLowerCase (p_pair p)) = Some c
        \<and> api_trade e (p_id p) (sellRequest p c) = Inl err"
  let ?ops = "map (\<lambda>p. (p, find (\<lambda>u. u_id u = p_userId p) (users s)))
               (filter (\<lambda>p. p_status p = OPEN) (positions s))"
  from h have d: "distinct (map (\<lambda>pu. p_id (fst pu)) ?ops)"
    by (intro openPositions_distinct) simp
  from h have mem: "(p, find (\<lambda>u. u_id u = p_userId p) (users s)) \<in> set ?ops" by simp
  from h have f0: "find (\<lambda>x. p_id x = p_id p) (positions s) = Some p"
    by (simp add: find_distinct_id)
  from h have t: "map_of tickers (toLowerCase (p_pair p)) = Some c"
    and a: "api_trade e (p_id p) (sellRequest p c) = Inl err" by simp_all
  from h have l: "snd (checkPositionsForSLTP e now s)
      = snd (forEach ?ops (monitorPosition e now tickers) s)"
    by (intro checkPositionsForSLTP_loop) simp
  show "find (\<lambda>x. p_id x = p_id p) (positions (snd (checkPositionsForSLTP e now s))) = Some p"
    using forEach_monitor_failed [OF t a d mem, of now s] f0 l by simp
next
  fix q c' rsn api oid
  assume h: "distinct (map p_id (positions s)) \<and> getSummaries e = Inr tickers
        \<and> p \<in> set (positions s) \<and> p_status p = OPEN
        \<and> map_of tickers (toLowerCase (p_pair p)) = Some c
        \<and> api_trade e (p_id p) (sellRequest p c) = Inl err"
    and g: "q \<in> set (positions s) \<and> p_status q = OPEN
              \<and> map_of tickers (toLowerCase (p_pair q)) = Some c'
              \<and> shouldClose (checkExitConditions q c')
              \<and> reason (checkExitConditions q c') = Some rsn
              \<and> hasApiKeys (find (\<lambda>u. u_id u = p_userId q) (users s))
              \<and> fst (newPrivateAPI e (find (\<lambda>u. u_id u = p_userId q) (users s)) s) = Inr api
              \<and> api_trade e (p_id q) (sellRequest q c') = Inr oid"
  let ?ops = "map (\<lambda>p. (p, find (\<lambda>u. u_id u = p_userId p) (users s)))
               (filter (\<lambda>p. p_status p = OPEN) (positions s))"
  let ?u = "find (\<lambda>u. u_id u = p_userId q) (users s)"
  from h have d: "distinct (map (\<lambda>pu. p_id (fst pu)) ?ops)"
    by (intro openPositions_distinct) simp
  from g have mem: "(q, ?u) \<in> set ?ops" by simp
  from h g have f0: "find (\<lambda>x. p_id x = p_id q) (positions s) = Some q"
    by (simp add: find_distinct_id)
  from g have g1: "map_of tickers (toLowerCase (p_pair q)) = Some c'"
    and g2: "shouldClose (checkExitConditions q c')"
    and g3: "reason (checkExitConditions q c') = Some rsn"
    and g4: "hasApiKeys ?u"
    and g5: "fst (newPrivateAPI e ?u s) = Inr api"
    and g6: "api_trade e (p_id q) (sellRequest q c') = Inr oid"
    by simp_all
  from h have l: "snd (checkPositionsForSLTP e now s)
      = snd (forEach ?ops (monitorPosition e now tickers) s)"
    by (intro checkPositionsForSLTP_loop) simp
  show "find (\<lambda>x. p_id x = p_id q) (positions (snd (checkPositionsForSLTP e now s)))
                  = Some (closedRecord now (exitParams q c' rsn) q)"
    using forEach_monitor_closed [OF g1 g2 g3 g4 g5 g6 d mem f0, of now] l by simp
  show "p_status (closedRecord now (exitParams q c' rsn) q) = CLOSED"
    by (simp add: closedRecord_def exitParams_def truthyNum_def Let_def)
  show "p_closeReason (closedRecord now (exitParams q c' rsn) q) = Some rsn"
    by (simp add: closedRecord_def exitParams_def Let_def)
  show "p_exitPrice (closedRecord now (exitParams q c' rsn) q) = Some c'"
    by (simp add: closedRecord_def exitParams_def Let_def)
qed

text \<open>
  The specification's scenario: three open positions, all with the stop loss hit; the
  exchange times out on the second SELL order. The cycle resolves, the first and third
  positions are CLOSED, the second is unchanged.
\<close>

theorem monitor_cycle_isolates_failures_witness:
  "distinct (map p_id (positions monitor_store))
   \<and> getSummaries monitor_env = Inr [(''btc_idr'', 80)]
   \<and> positions monitor_store = [monitored 1, monitored 2, monitored 3]
   \<and> api_trade monitor_env 2 (sellRequest (monitored 2) 80) = Inl (ExternalError ''timeout'')
   \<and> reason (checkExitConditions (monitored 2) 80) = Some STOP_LOSS
   \<and> fst (checkPositionsForSLTP monitor_env 5000 monitor_store) = Inr ()
   \<and> find (\<lambda>x. p_id x = 2) (positions (snd (checkPositionsForSLTP monitor_env 5000 monitor_store)))
       = Some (monitored 2)
   \<and> p_status (monitored 2) = OPEN
   \<and> find (\<lambda>x. p_id x = 1) (positions (snd (checkPositionsForSLTP monitor_env 5000 monitor_store)))
       = Some (closedRecord 5000 (exitParams (monitored 1) 80 STOP_LOSS) (monitored 1))
   \<and> p_status (closedRecord 5000 (exitParams (monitored 1) 80 STOP_LOSS) (monitored 1)) = CLOSED
   \<and> find (\<lambda>x. p_id x = 3) (positions (snd (checkPositionsForSLTP monitor_env 5000 monitor_store)))
       = Some (closedRecord 5000 (exitParams (monitored 3) 80 STOP_LOSS) (monitored 3))
   \<and> p_status (closedRecord 5000 (exitParams (monitored 3) 80 STOP_LOSS) (monitored 3)) = CLOSED"
proof -
  let ?u = "Some demo_user"
  have ps: "positions monitor_store = [monitored 1, monitored 2, monitored 3]"
    by (simp add: monitor_store_def)
  have id: "p_id (monitored i) = i" "p_status (monitored i) = OPEN"
    "p_pair (monitored i) = ''btc_idr''" "p_userId (monitored i) = ''u1''" for i
    by (simp_all add: monitored_def demo_position_def)
  have d: "distinct (map p_id (positions monitor_store))" by (simp add: ps id)
  have gs: "getSummaries monitor_env = Inr [(''btc_idr'', 80)]" by (simp add: monitor_env_def)
  have fl: "api_trade monitor_env (p_id (monitored 2)) (sellRequest (monitored 2) 80)
      = Inl (ExternalError ''timeout'')"
    by (simp add: monitor_env_def id)
  have ok: "api_trade monitor_env (p_id (monitored 1)) (sellRequest (monitored 1) 80) = Inr 7"
    "api_trade monitor_env (p_id (monitored 3)) (sellRequest (monitored 3) 80) = Inr 7"
    by (simp_all add: monitor_env_def id)
  have ex: "shouldClose (checkExitConditions (monitored i) 80)"
    "reason (checkExitConditions (monitored i) 80) = Some STOP_LOSS" for i
    by (simp_all add: checkExitConditions_def monitored_def truthyNum_def Let_def)
  have us: "find (\<lambda>u. u_id u = ''u1'') (users monitor_store) = ?u"
    by (simp add: monitor_store_def demo_user_def)
  have ky: "hasApiKeys ?u" by (simp add: hasApiKeys_def demo_user_def truthyStr_def)
  have ap: "fst (newPrivateAPI monitor_env ?u monitor_store) = Inr (''key'', ''secret'')"
    by (simp add: newPrivateAPI_def monitor_env_def demo_user_def io_defs)
  note th = monitor_cycle_isolates_failures
    [of monitor_env 5000 monitor_store "[(''btc_idr'', 80)]" "monitored 2" 80
        "ExternalError ''timeout''"]
  have hyp: "distinct (map p_id (positions monitor_store))
        \<and> getSummaries monitor_env = Inr [(''btc_idr'', 80)]
        \<and> monitored 2 \<in> set (positions monitor_store) \<and> p_status (monitored 2) = OPEN
        \<and> map_of [(''btc_idr'', 80)] (toLowerCase (p_pair (monitored 2))) = Some 80
        \<and> api_trade monitor_env (p_id (monitored 2)) (sellRequest (monitored 2) 80)
            = Inl (ExternalError ''timeout'')"
    using d gs fl by (simp add: ps id toLowerCase_btc_idr)
  from th have c0: "fst (checkPositionsForSLTP monitor_env 5000 monitor_store) = Inr ()"
    by (rule conjunct1)
  from th hyp have c2: "find (\<lambda>x. p_id x = p_id (monitored 2))
      (positions (snd (checkPositionsForSLTP monitor_env 5000 monitor_store)))
      = Some (monitored 2)"
    by blast
  from th hyp have all: "\<forall>q c' rsn api oid.
       q \<in> set (positions monitor_store) \<and> p_status q = OPEN
       \<and> map_of [(''btc_idr'', 80)] (toLowerCase (p_pair q)) = Some c'
       \<and> shouldClose (checkExitConditions q c')
       \<and> reason (checkExitConditions q c') = Some rsn
       \<and> hasApiKeys (find (\<lambda>u. u_id u = p_userId q) (users monitor_store))
       \<and> fst (newPrivateAPI monitor_env
                 (find (\<lambda>u. u_id u = p_userId q) (users monitor_store)) monitor_store) = Inr api
       \<and> api_trade monitor_env (p_id q) (sellRequest q c') = Inr oid
       \<longrightarrow> find (\<lambda>x. p_id x = p_id q)
             (positions (snd (checkPositionsForSLTP monitor_env 5000 monitor_store)))
             = Some (closedRecord 5000 (exitParams q c' rsn) q)
           \<and> p_status (closedRecord 5000 (exitParams q c' rsn) q) = CLOSED
           \<and> p_closeReason (closedRecord 5000 (exitParams q c' rsn) q) = Some rsn
           \<and> p_exitPrice (closedRecord 5000 (exitParams q c' rsn) q) = Some c'"
    by blast
  have cl: "find (\<lambda>x. p_id x = p_id (monitored i))
             (positions (snd (checkPositionsForSLTP monitor_env 5000 monitor_store)))
             = Some (closedRecord 5000 (exitParams (monitored i) 80 STOP_LOSS) (monitored i))
           \<and> p_status (closedRecord 5000 (exitParams (monitored i) 80 STOP_LOSS) (monitored i))
               = CLOSED"
    if m: "monitored i \<in> set (positions monitor_store)"
      and o: "api_trade monitor_env (p_id (monitored i)) (sellRequest (monitored i) 80) = Inr 7"
    for i
  proof -
    have "monitored i \<in> set (positions monitor_store) \<and> p_status (monitored i) = OPEN
       \<and> map_of [(''btc_idr'', 80)] (toLowerCase (p_pair (monitored i))) = Some 80
       \<and> shouldClose (checkExitConditions (monitored i) 80)
       \<and> reason (checkExitConditions (monitored i) 80) = Some STOP_LOSS
       \<and> hasApiKeys (find (\<lambda>u. u_id u = p_userId (monitored i)) (users monitor_store))
       \<and> fst (newPrivateAPI monitor_env
                 (find (\<lambda>u. u_id u = p_userId (monitored i)) (users monitor_store))
                 monitor_store) = Inr (''key'', ''secret'')
       \<and> api_trade monitor_env (p_id (monitored i)) (sellRequest (monitored i) 80) = Inr 7"
      using m o ex [of i] ky ap by (simp add: us id toLowerCase_btc_idr)
    with all [rule_format, of "monitored i" 80 STOP_LOSS "(''key'', ''secret'')" 7]
    show ?thesis by blast
  qed
  have m1: "monitored 1 \<in> set (positions monitor_store)"
    and m3: "monitored 3 \<in> set (positions monitor_store)"
    by (simp_all add: ps)
  show ?thesis
    using d gs ps fl ex [of 2] c0 c2 cl [OF m1 ok(1)] cl [OF m3 ok(2)]
    by (simp add: id)
qed

subsection \<open>What the analysis paths persist, for every input\<close>

lemma createSignal_signals:
  "\<exists>g. signals (snd (createSignal now u pair r news st s)) = signals s @ [g]
       \<and> sg_action g = ai_action r \<and> sg_confidence g = ai_confidence r \<and> sg_status g = st
       \<and> fst (createSignal now u pair r news st s) = Inr g"
  by (simp add: createSignal_def Let_def)

lemma setLastAnalysisTime_signals:
  "signals (snd (setLastAnalysisTime u now s)) = signals s"
  by (simp add: setLastAnalysisTime_def)

lemma analyseUser_signals:
  "signals (snd (analyseUser e now settings pair s)) = signals s
   \<or> (\<exists>g r. signals (snd (analyseUser e now settings pair s)) = signals s @ [g]
        \<and> generateSignal e (st_userId settings) pair = Inr (Some r)
        \<and> ai_action r \<noteq> HOLD
        \<and> \<not> ai_confidence r < st_minConfidenceToTrade settings
        \<and> sg_action g = ai_action r \<and> sg_status g = SIG_PENDING)"
proof (cases "generateSignal e (st_userId settings) pair")
  case (Inl err)
  then show ?thesis
    by (simp add: analyseUser_def andThen_alt countOpenPositions_def findOpenPositionFor_def
        await_def ret_def split: option.splits)
next
  case (Inr sig)
  show ?thesis
  proof (cases sig)
    case None
    with Inr show ?thesis
      by (simp add: analyseUser_def andThen_alt countOpenPositions_def findOpenPositionFor_def
          await_def ret_def setLastAnalysisTime_def split: option.splits)
  next
    case (Some r)
    obtain g where g: "signals (snd (createSignal now (st_userId settings) pair r None SIG_PENDING s))
        = signals s @ [g]" "sg_action g = ai_action r" "sg_status g = SIG_PENDING"
      "fst (createSignal now (st_userId settings) pair r None SIG_PENDING s) = Inr g"
      using createSignal_signals [of now "st_userId settings" pair r None SIG_PENDING s] by blast
    with Inr Some show ?thesis
      by (simp add: analyseUser_def andThen_alt countOpenPositions_def findOpenPositionFor_def
          await_def ret_def setLastAnalysisTime_def split: option.splits)
  qed
qed

lemma analyseUser_low_confidence_not_persisted:
  assumes "generateSignal e (st_userId settings) pair = Inr (Some r)"
      and "ai_confidence r < st_minConfidenceToTrade settings"
  shows "signals (snd (analyseUser e now settings pair s)) = signals s"
  using analyseUser_signals [of e now settings pair s] assms by auto

lemma jobsAnalyze_persists_any_action:
  assumes "find (\<lambda>st. st_userId st = u) (userSettings s) = Some settings"
      and "\<forall>pair. generateSignal e u pair = Inr (Some r)"
  shows "\<exists>g. signals (snd (jobsAnalyze e now u pair s)) = signals s @ [g]
           \<and> sg_action g = ai_action r \<and> sg_status g = SIG_PENDING"
  using assms
  by (simp add: jobsAnalyze_def tryCatch_alt andThen_alt await_def ret_def createSignal_def
      Let_def)

subsection \<open>Overlapping runs of the reconciler\<close>

lemma stepPass_six:
  "stepPass e now tid (stepPass e now tid (stepPass e now tid (stepPass e now tid
     (stepPass e now tid (stepPass e now tid (AtPoll tu, s))))))
   = (AtEnd, snd (reconcileOne e now tu s))"
proof (cases "hasApiKeys (snd tu)")
  case False
  then show ?thesis
    by (cases tu) (simp add: reconcileOne_def syncTrade_def tryCatch_alt ret_def Let_def)
next
  case True
  obtain trd usr where tu: "tu = (trd, usr)" by (cases tu)
  show ?thesis
  proof (cases "fst (newPrivateAPI e usr s)")
    case (Inl err)
    with True tu show ?thesis
      by (simp add: reconcileOne_def syncTrade_def tryCatch_alt andThen_alt ret_def Let_def
          newPrivateAPI_state split: prod.splits sum.splits)
  next
    case api: (Inr api)
    show ?thesis
    proof (cases "api_getOrder e (t_id trd) (t_pair trd)
                    (case t_orderId trd of Some oid \<Rightarrow> oid | None \<Rightarrow> [])")
      case (Inl err)
      with True tu api show ?thesis
        by (simp add: reconcileOne_def syncTrade_def tryCatch_alt andThen_alt ret_def Let_def
            await_def newPrivateAPI_state split: prod.splits sum.splits)
    next
      case ord: (Inr ord)
      have poll: "andThen (newPrivateAPI e usr) (\<lambda>api.
                await (api_getOrder e (t_id trd) (t_pair trd)
                  (case t_orderId trd of Some oid \<Rightarrow> oid | None \<Rightarrow> []))) s = (Inr ord, s)"
        using api ord by (simp add: andThen_alt await_def newPrivateAPI_state)
      have big: "reconcileOne e now tu s =
          (if newStatusOf (orderStatus ord) \<noteq> t_status trd
           then tryCatch (onStatusChange now trd (newStatusOf (orderStatus ord)))
                  (\<lambda>tradeError. ret ()) s
           else (Inr (), s))"
        using True tu api ord
        by (simp add: reconcileOne_def syncTrade_def tryCatch_alt andThen_alt ret_def Let_def
            await_def newPrivateAPI_state split: sum.splits)
      show ?thesis
      proof (cases "newStatusOf (orderStatus ord) \<noteq> t_status trd")
        case False
        with True tu poll big show ?thesis by (simp add: Let_def)
      next
        case changed: True
        show ?thesis
          using True tu poll big changed
          by (simp add: Let_def onStatusChange_def updateTradeStatus_eq
              findPositionByEntryTrade_def openPosition_eq sendAndSaveNotification_eq
              entryParams_def tryCatch_alt andThen_alt ret_def updateSignalStatus_def
              split: option.splits sum.splits)
      qed
    qed
  qed
qed

lemmas pass_eval =
  overlapping_def oneAfterTheOther_def findPendingTrades_def findPositionByEntryTrade_def
  updateTradeStatus_def openPosition_def createdPosition_def entryParams_def
  sendAndSaveNotification_def createNotification_def newPrivateAPI_def hasApiKeys_def
  truthyStr_def orderStatus_def newStatusOf_def orUndefined_def truthyNum_def io_defs
  trade_store_def user_store_def demo_trade_def demo_user_def demo_settings_def
  empty_store_def order_env_def gw_reply_def Let_def

text \<open>
  Claim C2: two runs of the reconciler over the same FILLED BUY tracked order, a replay or
  an overlapping cycle, create at most one position, so that at most one position ever
  references an exchange order id as its entry order. The code breaks it for overlapping
  runs. The lookup for an existing position and the creation are two separate awaits with
  nothing to make them one step. With one PLACED BUY order \<open>77\<close> of user \<open>u1\<close> that the
  exchange reports filled, two runs that take their awaits in turn both find no position
  and both create one: the store ends with two positions of \<open>u1\<close> with entry order
  \<open>77\<close>. The same two runs taken one after the other create one position, and leave
  the store that two calls of \<open>syncPendingOrders\<close> leave.
\<close>

theorem reconciler_overlapping_runs_create_two_positions:
  "positions trade_store = [] \<and> trades trade_store = [demo_trade]
   \<and> fst (interleave (order_env (gw_reply ''filled'')) 1000 1001 5 overlapping
          ((AtFind, AtFind), trade_store)) = (AtEnd, AtEnd)
   \<and> map (\<lambda>p. (p_userId p, p_entryTradeId p))
         (positions (snd (interleave (order_env (gw_reply ''filled'')) 1000 1001 5 overlapping
            ((AtFind, AtFind), trade_store))))
       = [(''u1'', Some ''77''), (''u1'', Some ''77'')]
   \<and> fst (interleave (order_env (gw_reply ''filled'')) 1000 1001 5 oneAfterTheOther
          ((AtFind, AtFind), trade_store)) = (AtEnd, AtEnd)
   \<and> map (\<lambda>p. (p_userId p, p_entryTradeId p))
         (positions (snd (interleave (order_env (gw_reply ''filled'')) 1000 1001 5
            oneAfterTheOther ((AtFind, AtFind), trade_store))))
       = [(''u1'', Some ''77'')]
   \<and> snd (interleave (order_env (gw_reply ''filled'')) 1000 1001 5 oneAfterTheOther
          ((AtFind, AtFind), trade_store))
       = snd (syncPendingOrders (order_env (gw_reply ''filled'')) 1001
           (snd (syncPendingOrders (order_env (gw_reply ''filled'')) 1000 trade_store)))"
  by (simp add: pass_eval syncPendingOrders_def reconcileOne_def syncTrade_def
      onStatusChange_def)

end
